theory Spec2Isabelle
  imports Complex_Main
begin

section \<open>Options strategy simulator: pricing and scenario projection\<close>

text \<open>
  The repository holds two variants of the calculator page. The later, fuller one is the
  file \<^verbatim>\<open>src/unnamed/part_001\<close> (second document, the \<^verbatim>\<open>Index\<close> component with
  saved state and stress scenarios); its functions keep their source names here. The
  earlier one is \<^verbatim>\<open>src/src/pages/Index.tsx\<close>; its functions carry the suffix
  \<open>_Index\<close>. The first document of \<^verbatim>\<open>part_001\<close> is the saved-scenarios page; its
  function carries the suffix \<open>_Saved\<close>.

  JavaScript numbers are modelled as \<^typ>\<open>real\<close>: rounding, infinities and NaN are outside
  the model. \<^verbatim>\<open>Math.exp\<close>, \<^verbatim>\<open>Math.log\<close> and \<^verbatim>\<open>Math.sqrt\<close> are \<^const>\<open>exp\<close>,
  \<^const>\<open>ln\<close> and \<^const>\<open>sqrt\<close>.
\<close>

subsection \<open>JavaScript values\<close>

text \<open>
  \<^verbatim>\<open>a || b\<close> and the truth value of \<^verbatim>\<open>a\<close>, for \<^verbatim>\<open>a\<close> a number or
  \<^verbatim>\<open>undefined\<close> (\<open>None\<close>): \<^verbatim>\<open>undefined\<close> and \<^verbatim>\<open>0\<close> are falsy.
\<close>

definition truthy :: "real option \<Rightarrow> bool" where
  "truthy a = (case a of None \<Rightarrow> False | Some v \<Rightarrow> v \<noteq> 0)"

definition orElse :: "real option \<Rightarrow> real \<Rightarrow> real" where
  "orElse a b = (case a of None \<Rightarrow> b | Some v \<Rightarrow> if v \<noteq> 0 then v else b)"

text \<open>Decimal rendering of a non-negative integer, as template literals do.\<close>

definition digitChar :: "nat \<Rightarrow> char" where
  "digitChar n = ''0123456789'' ! n"

fun showNat :: "nat \<Rightarrow> string" where
  "showNat n = (if n < 10 then [digitChar n] else showNat (n div 10) @ [digitChar (n mod 10)])"

declare showNat.simps [simp del]

text \<open>\<^verbatim>\<open>String(n).padStart(w, '0')\<close>, the zero padding of \<^verbatim>\<open>toISOString\<close>.\<close>

definition padZero :: "nat \<Rightarrow> nat \<Rightarrow> string" where
  "padZero w n = replicate (w - length (showNat n)) CHR ''0'' @ showNat n"

text \<open>\<^verbatim>\<open>s.split(c)\<close> for a one-character separator; the result is never empty.\<close>

fun splitJS :: "char \<Rightarrow> string \<Rightarrow> string list" where
  "splitJS c [] = [[]]"
| "splitJS c (x # xs) =
     (if x = c then [] # splitJS c xs
      else (case splitJS c xs of [] \<Rightarrow> [[x]] | w # ws \<Rightarrow> (x # w) # ws))"

text \<open>\<^verbatim>\<open>xs[i]\<close>: \<^verbatim>\<open>undefined\<close> out of range.\<close>

definition index :: "'a list \<Rightarrow> nat \<Rightarrow> 'a option" where
  "index xs i = (if i < length xs then Some (xs ! i) else None)"

text \<open>
  A property key: \<^verbatim>\<open>acc[year]\<close> with \<^verbatim>\<open>year\<close> undefined reads and writes the
  property named \<^verbatim>\<open>"undefined"\<close>.
\<close>

definition propertyKey :: "string option \<Rightarrow> string" where
  "propertyKey k = (case k of None \<Rightarrow> ''undefined'' | Some s \<Rightarrow> s)"

subsection \<open>Dates\<close>

text \<open>
  A \<^verbatim>\<open>Date\<close> is modelled by its calendar fields as the getters return them: the full
  year, the month \<open>0..11\<close> and the day of the month \<open>1..31\<close>. The time of day is
  midnight and the local time zone is UTC (a date-only string such as
  \<^verbatim>\<open>"2024-01-15"\<close> parses to midnight UTC), so local and UTC fields agree.
\<close>

record Date =
  getFullYear :: nat
  getMonth :: nat
  getDate :: nat

definition isLeap :: "nat \<Rightarrow> bool" where
  "isLeap y = (y mod 4 = 0 \<and> (y mod 100 \<noteq> 0 \<or> y mod 400 = 0))"

definition daysInMonth :: "nat \<Rightarrow> nat \<Rightarrow> nat" where
  "daysInMonth y m =
     (if m = 1 then (if isLeap y then 29 else 28)
      else if m = 3 \<or> m = 5 \<or> m = 8 \<or> m = 10 then 30 else 31)"

definition validDate :: "Date \<Rightarrow> bool" where
  "validDate d = (1 \<le> getFullYear d \<and> getMonth d < 12 \<and> 1 \<le> getDate d
     \<and> getDate d \<le> daysInMonth (getFullYear d) (getMonth d))"

text \<open>
  \<^verbatim>\<open>d.setMonth(m)\<close> for \<open>m \<ge> 0\<close>: months beyond December carry into the year, and a
  day of the month that the target month does not have runs over into the next month
  (31 January plus one month is 2 or 3 March).
\<close>

definition setMonth :: "Date \<Rightarrow> nat \<Rightarrow> Date" where
  "setMonth d m =
     (let y = getFullYear d + m div 12; mn = m mod 12; dim = daysInMonth y mn in
      if getDate d \<le> dim then \<lparr>getFullYear = y, getMonth = mn, getDate = getDate d\<rparr>
      else if mn = 11 then \<lparr>getFullYear = y + 1, getMonth = 0, getDate = getDate d - dim\<rparr>
      else \<lparr>getFullYear = y, getMonth = mn + 1, getDate = getDate d - dim\<rparr>)"

text \<open>
  \<^verbatim>\<open>new Date(y, m + 1, 0)\<close> for \<open>m\<close> in \<open>0..11\<close>: the last day of month \<open>m\<close>. The
  constructor reads a year \<open>0..99\<close> as \<open>1900 + y\<close>.
\<close>

definition lastDayOfMonth :: "nat \<Rightarrow> nat \<Rightarrow> Date" where
  "lastDayOfMonth y m =
     (let y' = (if y < 100 then 1900 + y else y) in
      \<lparr>getFullYear = y', getMonth = m, getDate = daysInMonth y' m\<rparr>)"

text \<open>The template literal \<^verbatim>\<open>`${date.getFullYear()}-${date.getMonth() + 1}`\<close>.\<close>

definition monthKey :: "Date \<Rightarrow> string" where
  "monthKey d = showNat (getFullYear d) @ ''-'' @ showNat (getMonth d + 1)"

text \<open>
  \<^verbatim>\<open>date.toISOString()\<close>: four digits for the years \<open>0..9999\<close>, a sign and six digits
  beyond.
\<close>

definition toISOString :: "Date \<Rightarrow> string" where
  "toISOString d =
     (if getFullYear d \<le> 9999 then padZero 4 (getFullYear d)
      else ''+'' @ padZero 6 (getFullYear d))
     @ ''-'' @ padZero 2 (getMonth d + 1) @ ''-'' @ padZero 2 (getDate d)
     @ ''T00:00:00.000Z''"

text \<open>
  Days from 1 January of year 0 to the date, for the difference of two dates:
  \<^verbatim>\<open>date - startDate\<close> is that many days of 86400000 milliseconds.
\<close>

definition daysBeforeYear :: "nat \<Rightarrow> nat" where
  "daysBeforeYear y = 365 * y + (y + 3) div 4 - (y + 99) div 100 + (y + 399) div 400"

definition daysBeforeMonth :: "nat \<Rightarrow> nat \<Rightarrow> nat" where
  "daysBeforeMonth y m = (\<Sum>k \<leftarrow> [0..<m]. daysInMonth y k)"

definition dayNumber :: "Date \<Rightarrow> nat" where
  "dayNumber d = daysBeforeYear (getFullYear d) + daysBeforeMonth (getFullYear d) (getMonth d)
     + getDate d - 1"

definition msBetween :: "Date \<Rightarrow> Date \<Rightarrow> real" where
  "msBetween d s = (real (dayNumber d) - real (dayNumber s)) * 86400000"

subsection \<open>Error function and Black-Scholes price\<close>

text \<open>
  \<^verbatim>\<open>erf\<close> of \<^verbatim>\<open>part_001\<close>. The constant \<^verbatim>\<open>a1\<close> is declared and the polynomial
  stops at \<^verbatim>\<open>a2\<close>; the whole product, exponential included, is subtracted from one.
\<close>

definition erf :: "real \<Rightarrow> real" where
  "erf x0 =
     (let a1 = (0.254829592 :: real); a2 = - 0.284496736; a3 = 1.421413741;
          a4 = - 1.453152027; a5 = 1.061405429; p = 0.3275911;
          sign = (if x0 < 0 then - 1 else 1);
          x = \<bar>x0\<bar>;
          t = 1.0 / (1.0 + p * x);
          y = 1.0 - (((((a5 * t + a4) * t) + a3) * t + a2) * t * exp (- x * x))
      in sign * y)"

text \<open>\<^verbatim>\<open>erf\<close> of \<^verbatim>\<open>src/pages/Index.tsx\<close>: all five terms.\<close>

definition erf_Index :: "real \<Rightarrow> real" where
  "erf_Index x0 =
     (let a1 = (0.254829592 :: real); a2 = - 0.284496736; a3 = 1.421413741;
          a4 = - 1.453152027; a5 = 1.061405429; p = 0.3275911;
          sign = (if x0 < 0 then - 1 else 1);
          x = \<bar>x0\<bar>;
          t = 1.0 / (1.0 + p * x);
          y = 1.0 - (((((a5 * t + a4) * t) + a3) * t + a2) * t + a1) * t * exp (- x * x)
      in sign * y)"

text \<open>
  The normal distribution function as both pricers inline it:
  \<^verbatim>\<open>(1 + erf(d/Math.sqrt(2)))/2\<close>.
\<close>

definition cdf :: "real \<Rightarrow> real" where
  "cdf d = (1 + erf (d / sqrt 2)) / 2"

definition cdf_Index :: "real \<Rightarrow> real" where
  "cdf_Index d = (1 + erf_Index (d / sqrt 2)) / 2"

datatype OptionType = Call | Put

text \<open>\<^verbatim>\<open>calculateOptionPrice\<close> of \<^verbatim>\<open>src/pages/Index.tsx\<close>.\<close>

definition calculateOptionPrice_Index ::
  "OptionType \<Rightarrow> real \<Rightarrow> real \<Rightarrow> real \<Rightarrow> real \<Rightarrow> real \<Rightarrow> real" where
  "calculateOptionPrice_Index ty S K r t sigma =
     (let d1 = (ln (S / K) + (r + sigma ^ 2 / 2) * t) / (sigma * sqrt t);
          d2 = d1 - sigma * sqrt t;
          Nd1 = cdf_Index d1;
          Nd2 = cdf_Index d2
      in if ty = Call then S * Nd1 - K * exp (- r * t) * Nd2
         else K * exp (- r * t) * (1 - Nd2) - S * (1 - Nd1))"

text \<open>
  \<^verbatim>\<open>calculateOptionPrice\<close> of \<^verbatim>\<open>part_001\<close>. It reads two state variables, the flag
  \<^verbatim>\<open>showImpliedVol\<close> and the table \<^verbatim>\<open>customVolatilities\<close>, passed here as the
  first two arguments; the month key is optional.
\<close>

definition calculateOptionPrice ::
  "bool \<Rightarrow> (string \<rightharpoonup> real) \<Rightarrow> OptionType \<Rightarrow> real \<Rightarrow> real \<Rightarrow> real \<Rightarrow> real \<Rightarrow> real
     \<Rightarrow> string option \<Rightarrow> real" where
  "calculateOptionPrice showIV customVols ty S K r t sigma mk =
     (let effectiveVolatility =
            (case mk of
               None \<Rightarrow> sigma
             | Some k \<Rightarrow>
                 if showIV \<and> k \<noteq> [] \<and> truthy (customVols k) then the (customVols k)
                 else sigma);
          d1 = (ln (S / K) + (r + effectiveVolatility ^ 2 / 2) * t)
                 / (effectiveVolatility * sqrt t);
          d2 = d1 - effectiveVolatility * sqrt t;
          Nd1 = cdf d1;
          Nd2 = cdf d2
      in if ty = Call then S * Nd1 - K * exp (- r * t) * Nd2
         else K * exp (- r * t) * (1 - Nd2) - S * (1 - Nd1))"

subsection \<open>State of the calculator\<close>

text \<open>
  The component state, one field per \<^verbatim>\<open>useState\<close> variable that the modelled functions
  read or write (\<^verbatim>\<open>activeTab\<close>, \<^verbatim>\<open>customScenario\<close> and \<^verbatim>\<open>showInputs\<close> are
  display state). \<^verbatim>\<open>params.startDate\<close> is held as the \<^verbatim>\<open>Date\<close> that
  \<^verbatim>\<open>new Date(params.startDate)\<close> gives, \<^verbatim>\<open>monthsToHedge\<close> is a natural number.
  Records of the source that share a field name get a prefix here: \<open>rp_\<close> for
  \<^verbatim>\<open>realPriceParams\<close>, \<open>sc_\<close> for a stress scenario, \<open>op_\<close> for an entry of
  \<^verbatim>\<open>optionPrices\<close>. The field \<^verbatim>\<open>type\<close> of a leg is \<open>optionType\<close>. The
  \<^verbatim>\<open>label\<close> of an entry of \<^verbatim>\<open>optionPrices\<close> is display text and is left out.
\<close>

record Params =
  startDate :: Date
  monthsToHedge :: nat
  interestRate :: real
  totalVolume :: real
  spotPrice :: real

datatype StrikeType = Percent | Absolute

record StrategyComponent =
  optionType :: OptionType
  strike :: real
  strikeType :: StrikeType
  volatility :: real
  quantity :: real

record OptionPrice =
  op_type :: OptionType
  op_price :: real
  op_quantity :: real
  op_strike :: real

record Result =
  date :: string
  timeToMaturity :: real
  forward :: real
  realPrice :: real
  optionPrices :: "OptionPrice list"
  strategyPrice :: real
  totalPayoff :: real
  monthlyVolume :: real
  hedgedCost :: real
  unhedgedCost :: real
  deltaPnL :: real

record PayoffPoint =
  price :: real
  payoff :: real

record RealPriceParams =
  useSimulation :: bool
  rp_volatility :: real
  rp_drift :: real
  numSimulations :: nat

record StressTestScenario =
  name :: string
  description :: string
  sc_volatility :: real
  sc_drift :: real
  priceShock :: real
  forwardBasis :: "real option"
  realBasis :: "real option"
  isCustom :: "bool option"
  isEditable :: "bool option"

record State =
  params :: Params
  initialSpotPrice :: real
  strategy :: "StrategyComponent list"
  results :: "Result list option"
  manualForwards :: "string \<rightharpoonup> real"
  realPrices :: "string \<rightharpoonup> real"
  payoffData :: "PayoffPoint list"
  realPriceParams :: RealPriceParams
  stressTestScenarios :: "string \<rightharpoonup> StressTestScenario"
  activeStressTest :: "string option"
  showImpliedVol :: bool
  customVolatilities :: "string \<rightharpoonup> real"

subsection \<open>The projector of \<^verbatim>\<open>part_001\<close>\<close>

text \<open>The strike of a leg, as every caller resolves it.\<close>

definition resolveStrike :: "Params \<Rightarrow> StrategyComponent \<Rightarrow> real" where
  "resolveStrike p opt =
     (if strikeType opt = Percent then spotPrice p * (strike opt / 100) else strike opt)"

text \<open>The intrinsic value \<^verbatim>\<open>Math.max(...)\<close> of a leg at a price.\<close>

definition intrinsicValue :: "OptionType \<Rightarrow> real \<Rightarrow> real \<Rightarrow> real" where
  "intrinsicValue ty pr k = (if ty = Call then max (pr - k) 0 else max (k - pr) 0)"

text \<open>
  \<^verbatim>\<open>calculatePayoff\<close>: 101 prices from half the spot to one and a half times the
  spot; the premium is priced at the spot for one year, with no month key.
\<close>

definition calculatePayoff :: "State \<Rightarrow> State" where
  "calculatePayoff st =
     (if strategy st = [] then st
      else
        let spot = spotPrice (params st);
            priceRange = map (\<lambda>i. spot * (0.5 + real i * 0.01)) [0..<101];
            payoffCalculation =
              map (\<lambda>pr.
                \<lparr>price = pr,
                 payoff =
                   foldl (\<lambda>total opt.
                     let k = resolveStrike (params st) opt;
                         q = quantity opt / 100;
                         optionPremium =
                           calculateOptionPrice (showImpliedVol st) (customVolatilities st)
                             (optionType opt) spot k (interestRate (params st) / 100) 1
                             (volatility opt / 100) None
                     in total + (intrinsicValue (optionType opt) pr k - optionPremium) * q)
                   0 (strategy st)\<rparr>) priceRange
        in st\<lparr>payoffData := payoffCalculation\<rparr>)"

text \<open>
  \<^verbatim>\<open>calculateSimulatedPrice\<close>; the first argument is the value that
  \<^verbatim>\<open>Math.random()\<close> returns in this call.
\<close>

definition calculateSimulatedPrice :: "real \<Rightarrow> real \<Rightarrow> nat \<Rightarrow> RealPriceParams \<Rightarrow> real" where
  "calculateSimulatedPrice u spot monthIndex rp =
     (let t = real monthIndex / 12;
          drift = rp_drift rp;
          vol = rp_volatility rp
      in spot * exp ((drift - vol * vol / 2) * t + vol * sqrt t * (u * 2 - 1)))"

text \<open>
  The volatility a leg is priced with in month \<open>mk\<close>: the custom volatility of the month
  when implied volatilities are shown and one is set, the leg's own otherwise.
\<close>

definition legVolatility :: "State \<Rightarrow> string \<Rightarrow> StrategyComponent \<Rightarrow> real" where
  "legVolatility st mk opt =
     (if showImpliedVol st \<and> truthy (customVolatilities st mk)
      then the (customVolatilities st mk) else volatility opt / 100)"

text \<open>
  The cost accounting of a row: costs are positive amounts and the difference is unhedged
  minus hedged.
\<close>

definition hedgedCost_of :: "real \<Rightarrow> real \<Rightarrow> real \<Rightarrow> real \<Rightarrow> real" where
  "hedgedCost_of mv rp sp tp = mv * (rp + sp - tp)"

definition unhedgedCost_of :: "real \<Rightarrow> real \<Rightarrow> real" where
  "unhedgedCost_of mv rp = mv * rp"

definition deltaPnL_of :: "real \<Rightarrow> real \<Rightarrow> real" where
  "deltaPnL_of uc hc = uc - hc"

text \<open>
  The body of the loop of \<^verbatim>\<open>calculateResults\<close> for period \<open>i\<close>; \<open>rnd i\<close> is the
  value of \<^verbatim>\<open>Math.random()\<close> drawn in that period when the simulation is on.
\<close>

definition resultRow :: "(nat \<Rightarrow> real) \<Rightarrow> State \<Rightarrow> nat \<Rightarrow> Result" where
  "resultRow rnd st i =
     (let p = params st;
          start = startDate p;
          lastDayOfStartMonth = lastDayOfMonth (getFullYear start) (getMonth start);
          daysInFirstMonth = real (getDate lastDayOfStartMonth) - real (getDate start) + 1;
          totalDaysInFirstMonth = real (getDate lastDayOfStartMonth);
          d = setMonth start (getMonth start + i);
          mk = monthKey d;
          ttm = (if i = 0 then daysInFirstMonth / (totalDaysInFirstMonth * real (monthsToHedge p))
                 else real i / real (monthsToHedge p));
          fwd = orElse (manualForwards st mk) (spotPrice p);
          rp = (if useSimulation (realPriceParams st)
                then calculateSimulatedPrice (rnd i) (spotPrice p) i (realPriceParams st)
                else orElse (realPrices st mk) fwd);
          ops = map (\<lambda>opt.
                  let k = resolveStrike p opt;
                      vol = legVolatility st mk opt;
                      pr = calculateOptionPrice (showImpliedVol st) (customVolatilities st)
                             (optionType opt) fwd k (interestRate p / 100) ttm vol (Some mk)
                  in \<lparr>op_type = optionType opt, op_price = pr,
                      op_quantity = quantity opt / 100, op_strike = k\<rparr>) (strategy st);
          sp = foldl (\<lambda>sum opt. sum + op_price opt * op_quantity opt) 0 ops;
          tp = foldl (\<lambda>sum opt.
                  sum + intrinsicValue (op_type opt) rp (op_strike opt) * op_quantity opt) 0 ops;
          mv = totalVolume p / real (monthsToHedge p);
          hc = hedgedCost_of mv rp sp tp;
          uc = unhedgedCost_of mv rp;
          dp = deltaPnL_of uc hc
      in \<lparr>date = hd (splitJS CHR ''T'' (toISOString d)), timeToMaturity = ttm, forward = fwd,
          realPrice = rp, optionPrices = ops, strategyPrice = sp, totalPayoff = tp,
          monthlyVolume = mv, hedgedCost = hc, unhedgedCost = uc, deltaPnL = dp\<rparr>)"

text \<open>
  \<^verbatim>\<open>calculateResults\<close>: an empty strategy clears results and payoff data; otherwise
  one row per period, then the payoff diagram.
\<close>

definition calculateResults :: "(nat \<Rightarrow> real) \<Rightarrow> State \<Rightarrow> State" where
  "calculateResults rnd st =
     (if strategy st = [] then st\<lparr>results := None, payoffData := []\<rparr>
      else calculatePayoff
             (st\<lparr>results := Some (map (resultRow rnd st) [0..<monthsToHedge (params st)])\<rparr>))"

subsection \<open>Stress scenarios of \<^verbatim>\<open>part_001\<close>\<close>

text \<open>
  The loop that writes the forward curve of a scenario. \<open>k\<close> counts the iterations
  left, \<open>i\<close> is the loop index, \<open>cur\<close> is \<^verbatim>\<open>currentDate\<close>, which the loop advances
  by one month before it forms the key.
\<close>

fun forwardLoop ::
  "real \<Rightarrow> real \<Rightarrow> nat \<Rightarrow> nat \<Rightarrow> Date \<Rightarrow> (string \<rightharpoonup> real) \<Rightarrow> (string \<rightharpoonup> real)" where
  "forwardLoop stressedSpotPrice basis 0 i cur mf = mf"
| "forwardLoop stressedSpotPrice basis (Suc k) i cur mf =
     (let cur' = setMonth cur (getMonth cur + 1);
          mk = monthKey cur';
          timeInYears = real i / 12;
          forwardPrice = stressedSpotPrice * exp (basis * timeInYears * 12)
      in forwardLoop stressedSpotPrice basis k (Suc i) cur' (mf(mk \<mapsto> forwardPrice)))"

text \<open>The loop that fills \<^verbatim>\<open>baseForwards\<close> with the carry at the risk-free rate.\<close>

fun baseForwardsLoop ::
  "real \<Rightarrow> real \<Rightarrow> nat \<Rightarrow> nat \<Rightarrow> Date \<Rightarrow> (string \<rightharpoonup> real) \<Rightarrow> (string \<rightharpoonup> real)" where
  "baseForwardsLoop stressedSpotPrice rate 0 i cur bf = bf"
| "baseForwardsLoop stressedSpotPrice rate (Suc k) i cur bf =
     (let cur' = setMonth cur (getMonth cur + 1);
          mk = monthKey cur';
          timeInYears = real i / 12;
          forwardPrice = stressedSpotPrice * exp ((rate / 100) * timeInYears)
      in baseForwardsLoop stressedSpotPrice rate k (Suc i) cur' (bf(mk \<mapsto> forwardPrice)))"

text \<open>
  The loop that writes the real prices of a scenario and copies the base forwards; it
  works on the pair of \<^verbatim>\<open>manualForwards\<close> and \<^verbatim>\<open>realPrices\<close>. A key that
  \<^verbatim>\<open>baseForwards\<close> lacks would store \<^verbatim>\<open>undefined\<close>, which every reader takes for
  an absent key.
\<close>

fun realPricesLoop ::
  "real \<Rightarrow> real \<Rightarrow> (string \<rightharpoonup> real) \<Rightarrow> nat \<Rightarrow> nat \<Rightarrow> Date
     \<Rightarrow> (string \<rightharpoonup> real) \<times> (string \<rightharpoonup> real) \<Rightarrow> (string \<rightharpoonup> real) \<times> (string \<rightharpoonup> real)" where
  "realPricesLoop stressedSpotPrice basis baseForwards 0 i cur acc = acc"
| "realPricesLoop stressedSpotPrice basis baseForwards (Suc k) i cur (mf, rps) =
     (let cur' = setMonth cur (getMonth cur + 1);
          mk = monthKey cur';
          timeInYears = real i / 12;
          rp = stressedSpotPrice * exp (basis * timeInYears * 12)
      in realPricesLoop stressedSpotPrice basis baseForwards k (Suc i) cur'
           (mf(mk := baseForwards mk), rps(mk \<mapsto> rp)))"

text \<open>
  Reading a property of a plain object. \<^verbatim>\<open>stressTestScenarios[key]\<close> gives the value
  of an own property of the catalog; for a key that the catalog lacks and
  \<^verbatim>\<open>Object.prototype\<close> has, it gives the inherited member, a function or, for
  \<^verbatim>\<open>__proto__\<close>, the prototype itself; for every other key it gives \<^verbatim>\<open>undefined\<close>.
  An inherited member is truthy and has none of the fields of a scenario. The objects that
  are read with a month key or with the year of a row are kept as partial maps: no month
  key names a member of \<^verbatim>\<open>Object.prototype\<close>.
\<close>

definition objectPrototypeNames :: "string list" where
  "objectPrototypeNames =
     [''constructor'', ''__defineGetter__'', ''__defineSetter__'', ''hasOwnProperty'',
      ''__lookupGetter__'', ''__lookupSetter__'', ''isPrototypeOf'', ''propertyIsEnumerable'',
      ''toString'', ''valueOf'', ''__proto__'', ''toLocaleString'']"

datatype 'a PropertyRead = OwnProperty 'a | InheritedMember | UndefinedValue

definition readProperty :: "(string \<rightharpoonup> 'a) \<Rightarrow> string \<Rightarrow> 'a PropertyRead" where
  "readProperty obj key =
     (case obj key of
        Some v \<Rightarrow> OwnProperty v
      | None \<Rightarrow> if key \<in> set objectPrototypeNames then InheritedMember else UndefinedValue)"

text \<open>
  The body of \<^verbatim>\<open>applyStressTest\<close> after its guard, for a scenario object of the
  catalog. The setters queue their updates; the call of \<^verbatim>\<open>calculateResults\<close> at the
  end runs in the closure of the current render, so it projects the state \<open>st\<close> the handler
  started from, and only its results and payoff data reach the new state. Effects that run
  after the render are not part of the function.
\<close>

definition applyScenario ::
  "(nat \<Rightarrow> real) \<Rightarrow> string \<Rightarrow> StressTestScenario \<Rightarrow> State \<Rightarrow> State" where
  "applyScenario rnd key scenario st =
     (let stressedSpotPrice = initialSpotPrice st * (1 + priceShock scenario);
          rpp = (realPriceParams st)
                  \<lparr>useSimulation := \<not> truthy (realBasis scenario),
                   rp_volatility := sc_volatility scenario,
                   rp_drift := sc_drift scenario\<rparr>;
          mf0 = (if forwardBasis scenario \<noteq> None then Map.empty else manualForwards st);
          rp0 = (if realBasis scenario \<noteq> None then Map.empty else realPrices st);
          n = monthsToHedge (params st);
          start = startDate (params st);
          mf1 = (if forwardBasis scenario \<noteq> None \<and> forwardBasis scenario \<noteq> Some 0
                 then forwardLoop stressedSpotPrice (the (forwardBasis scenario)) n 0 start mf0
                 else mf0);
          (mf2, rp2) =
            (if realBasis scenario \<noteq> None \<and> realBasis scenario \<noteq> Some 0
             then realPricesLoop stressedSpotPrice (the (realBasis scenario))
                    (baseForwardsLoop stressedSpotPrice (interestRate (params st)) n 0 start
                       Map.empty)
                    n 0 start (mf1, rp0)
             else (mf1, rp0));
          projected = calculateResults rnd st
      in st\<lparr>activeStressTest := Some key, realPriceParams := rpp,
            manualForwards := mf2, realPrices := rp2,
            results := results projected, payoffData := payoffData projected\<rparr>)"

text \<open>
  What the handler leaves behind. \<open>Typed st\<close> is a state of the record type.
  \<open>UndefinedParams st\<close> is the state \<open>st\<close> in which volatility and drift of the simulation
  parameters hold \<^verbatim>\<open>undefined\<close>, which the record type, with its numbers, cannot say;
  every other field is as \<open>st\<close> has it.
\<close>

datatype Applied = Typed State | UndefinedParams State

text \<open>
  \<^verbatim>\<open>applyStressTest\<close>. The marker is set before the catalog is read, and the guard
  \<^verbatim>\<open>if (!scenario) return\<close> leaves only when the read gives \<^verbatim>\<open>undefined\<close>. On an
  inherited member the handler runs on: every field it reads of the member is
  \<^verbatim>\<open>undefined\<close>, so the simulation is turned on, volatility and drift become
  \<^verbatim>\<open>undefined\<close>, no override is cleared or written (the stressed spot, not a number,
  is never used), and the rows and the payoff data of a projection of \<open>st\<close> are stored.
\<close>

definition applyStressTest :: "(nat \<Rightarrow> real) \<Rightarrow> string \<Rightarrow> State \<Rightarrow> Applied" where
  "applyStressTest rnd key st =
     (case readProperty (stressTestScenarios st) key of
        UndefinedValue \<Rightarrow> Typed (st\<lparr>activeStressTest := Some key\<rparr>)
      | OwnProperty scenario \<Rightarrow> Typed (applyScenario rnd key scenario st)
      | InheritedMember \<Rightarrow>
          let rpp = (realPriceParams st)\<lparr>useSimulation := True\<rparr>;
              projected = calculateResults rnd st
          in UndefinedParams
               (st\<lparr>activeStressTest := Some key, realPriceParams := rpp,
                    results := results projected, payoffData := payoffData projected\<rparr>))"

subsection \<open>Yearly sums\<close>

record YearlyResult =
  y_hedgedCost :: real
  y_unhedgedCost :: real
  y_deltaPnL :: real

text \<open>
  \<^verbatim>\<open>isValidResult\<close> asks that the row exists and that its three costs have type
  \<^verbatim>\<open>number\<close>; every value of the record type passes.
\<close>

definition isValidResult :: "Result \<Rightarrow> bool" where
  "isValidResult row = True"

text \<open>The year of a row: \<^verbatim>\<open>row.date.split(' ')[1]\<close>, undefined when there is no space.\<close>

definition rowYear :: "Result \<Rightarrow> string option" where
  "rowYear row = index (splitJS CHR '' '' (date row)) 1"

text \<open>\<^verbatim>\<open>calculateYearlyResults\<close> of the calculator page: the reducer and the fold.\<close>

definition yearlyStep :: "(string \<rightharpoonup> YearlyResult) \<Rightarrow> Result \<Rightarrow> (string \<rightharpoonup> YearlyResult)" where
  "yearlyStep acc row =
     (let k = propertyKey (rowYear row);
          acc1 = (case acc k of
                    None \<Rightarrow> acc(k \<mapsto> \<lparr>y_hedgedCost = 0, y_unhedgedCost = 0, y_deltaPnL = 0\<rparr>)
                  | Some _ \<Rightarrow> acc)
      in if isValidResult row
         then acc1(k \<mapsto>
                \<lparr>y_hedgedCost = y_hedgedCost (the (acc1 k)) + hedgedCost row,
                 y_unhedgedCost = y_unhedgedCost (the (acc1 k)) + unhedgedCost row,
                 y_deltaPnL = y_deltaPnL (the (acc1 k)) + deltaPnL row\<rparr>)
         else acc1)"

definition calculateYearlyResults :: "Result list \<Rightarrow> (string \<rightharpoonup> YearlyResult)" where
  "calculateYearlyResults rs = foldl yearlyStep Map.empty rs"

text \<open>\<^verbatim>\<open>calculateYearlyResults\<close> of the saved-scenarios page: no validity test.\<close>

definition yearlyStep_Saved ::
  "(string \<rightharpoonup> YearlyResult) \<Rightarrow> Result \<Rightarrow> (string \<rightharpoonup> YearlyResult)" where
  "yearlyStep_Saved acc row =
     (let k = propertyKey (rowYear row);
          acc1 = (case acc k of
                    None \<Rightarrow> acc(k \<mapsto> \<lparr>y_hedgedCost = 0, y_unhedgedCost = 0, y_deltaPnL = 0\<rparr>)
                  | Some _ \<Rightarrow> acc)
      in acc1(k \<mapsto>
           \<lparr>y_hedgedCost = y_hedgedCost (the (acc1 k)) + hedgedCost row,
            y_unhedgedCost = y_unhedgedCost (the (acc1 k)) + unhedgedCost row,
            y_deltaPnL = y_deltaPnL (the (acc1 k)) + deltaPnL row\<rparr>))"

definition calculateYearlyResults_Saved :: "Result list \<Rightarrow> (string \<rightharpoonup> YearlyResult)" where
  "calculateYearlyResults_Saved rs = foldl yearlyStep_Saved Map.empty rs"

subsection \<open>The projector of \<^verbatim>\<open>src/pages/Index.tsx\<close>\<close>

text \<open>
  The earlier page has the state variables \<^verbatim>\<open>params\<close>, \<^verbatim>\<open>strategy\<close>,
  \<^verbatim>\<open>results\<close>, \<^verbatim>\<open>manualForwards\<close>, \<^verbatim>\<open>realPrices\<close>, \<^verbatim>\<open>payoffData\<close> and
  \<^verbatim>\<open>realPriceParams\<close>; its functions are modelled on the same record and leave the
  other fields alone.
\<close>

definition monthNames :: "string list" where
  "monthNames = [''January'', ''February'', ''March'', ''April'', ''May'', ''June'',
     ''July'', ''August'', ''September'', ''October'', ''November'', ''December'']"

definition calculatePayoff_Index :: "State \<Rightarrow> State" where
  "calculatePayoff_Index st =
     (if strategy st = [] then st
      else
        let spot = spotPrice (params st);
            priceRange = map (\<lambda>i. spot * (0.5 + real i * 0.01)) [0..<101];
            payoffCalculation =
              map (\<lambda>pr.
                \<lparr>price = pr,
                 payoff =
                   foldl (\<lambda>total opt.
                     let k = resolveStrike (params st) opt;
                         q = quantity opt / 100;
                         optionPremium =
                           calculateOptionPrice_Index (optionType opt) spot k
                             (interestRate (params st) / 100) 1 (volatility opt / 100)
                     in total + (intrinsicValue (optionType opt) pr k - optionPremium) * q)
                   0 (strategy st)\<rparr>) priceRange
        in st\<lparr>payoffData := payoffCalculation\<rparr>)"

text \<open>
  \<^verbatim>\<open>simulateRealPrices\<close>: a walk from the spot price, one draw \<open>rnd j\<close> of
  \<^verbatim>\<open>Math.random()\<close> for the \<open>j\<close>-th month.
\<close>

fun simulateRealPrices_Index ::
  "(nat \<Rightarrow> real) \<Rightarrow> RealPriceParams \<Rightarrow> nat \<Rightarrow> real \<Rightarrow> (string \<rightharpoonup> real) \<Rightarrow> Date list
     \<Rightarrow> (string \<rightharpoonup> real)" where
  "simulateRealPrices_Index rnd rp j currentPrice prices [] = prices"
| "simulateRealPrices_Index rnd rp j currentPrice prices (d # ds) =
     (let dt = 1 / 12;
          randomWalk = rnd j * 2 - 1;
          currentPrice' = currentPrice * exp ((rp_drift rp - (rp_volatility rp) ^ 2 / 2) * dt
                            + rp_volatility rp * sqrt dt * randomWalk)
      in simulateRealPrices_Index rnd rp (Suc j) currentPrice'
           (prices(monthKey d \<mapsto> currentPrice')) ds)"

text \<open>
  The month ends after the first: the loop advances \<^verbatim>\<open>currentDate\<close> by one month and
  pushes the last day of the month it lands in.
\<close>

fun monthsLoop :: "nat \<Rightarrow> Date \<Rightarrow> Date list" where
  "monthsLoop 0 cur = []"
| "monthsLoop (Suc k) cur =
     (let cur' = setMonth cur (getMonth cur + 1)
      in lastDayOfMonth (getFullYear cur') (getMonth cur') # monthsLoop k cur')"

definition months_Index :: "Params \<Rightarrow> Date list" where
  "months_Index p =
     (let start = startDate p;
          lastDayOfStartMonth = lastDayOfMonth (getFullYear start) (getMonth start);
          remainingDaysInMonth = int (getDate lastDayOfStartMonth) - int (getDate start) + 1
      in (if remainingDaysInMonth > 0 then [lastDayOfStartMonth] else [])
         @ monthsLoop (monthsToHedge p - (if remainingDaysInMonth > 0 then 1 else 0)) start)"

text \<open>
  The cost accounting of the earlier page: costs are negative amounts and the difference
  is hedged minus unhedged.
\<close>

definition hedgedCost_Index :: "real \<Rightarrow> real \<Rightarrow> real \<Rightarrow> real \<Rightarrow> real" where
  "hedgedCost_Index mv rp sp tp = - (mv * rp) - (mv * sp) + (mv * tp)"

definition unhedgedCost_Index :: "real \<Rightarrow> real \<Rightarrow> real" where
  "unhedgedCost_Index mv rp = - (mv * rp)"

definition deltaPnL_Index :: "real \<Rightarrow> real \<Rightarrow> real" where
  "deltaPnL_Index hc uc = hc - uc"

text \<open>The row that \<^verbatim>\<open>months.map\<close> builds for a month end.\<close>

definition resultRow_Index :: "State \<Rightarrow> Date \<Rightarrow> Result" where
  "resultRow_Index st d =
     (let p = params st;
          start = startDate p;
          mk = monthKey d;
          fwd = orElse (manualForwards st mk)
                  (spotPrice p * exp (interestRate p / 100 * msBetween d start
                     / (1000 * 60 * 60 * 24 * 365)));
          rp = orElse (realPrices st mk) fwd;
          t = \<bar>msBetween d start\<bar> / (325.25 * 24 * 60 * 60 * 1000);
          ops = map (\<lambda>opt.
                  let k = resolveStrike p opt
                  in \<lparr>op_type = optionType opt,
                      op_price = calculateOptionPrice_Index (optionType opt) fwd k
                                   (interestRate p / 100) t (volatility opt / 100),
                      op_quantity = quantity opt / 100, op_strike = k\<rparr>) (strategy st);
          sp = foldl (\<lambda>total opt. total + (op_price opt * op_quantity opt)) 0 ops;
          tp = foldl (\<lambda>sum opt.
                  sum + (intrinsicValue (op_type opt) rp (op_strike opt) * op_quantity opt)) 0 ops;
          mv = totalVolume p / real (monthsToHedge p);
          hc = hedgedCost_Index mv rp sp tp;
          uc = unhedgedCost_Index mv rp
      in \<lparr>date = monthNames ! getMonth d @ '' '' @ showNat (getFullYear d),
          timeToMaturity = t, forward = fwd, realPrice = rp, optionPrices = ops,
          strategyPrice = sp, totalPayoff = tp, monthlyVolume = mv, hedgedCost = hc,
          unhedgedCost = uc, deltaPnL = deltaPnL_Index hc uc\<rparr>)"

text \<open>
  \<^verbatim>\<open>calculateResults\<close> of the earlier page. With the simulation on, the simulated
  prices are queued for \<^verbatim>\<open>realPrices\<close>; the rows of this call still read the
  \<^verbatim>\<open>realPrices\<close> of the current render.
\<close>

definition calculateResults_Index :: "(nat \<Rightarrow> real) \<Rightarrow> State \<Rightarrow> State" where
  "calculateResults_Index rnd st =
     (let months = months_Index (params st);
          rps = (if useSimulation (realPriceParams st)
                 then simulateRealPrices_Index rnd (realPriceParams st) 0 (spotPrice (params st))
                        Map.empty months
                 else realPrices st)
      in calculatePayoff_Index
           (st\<lparr>realPrices := rps, results := Some (map (resultRow_Index st) months)\<rparr>))"

subsection \<open>The scenario catalog and a sample state\<close>

text \<open>The catalog that \<^verbatim>\<open>stressTestScenarios\<close> starts with.\<close>

definition defaultScenarios :: "string \<rightharpoonup> StressTestScenario" where
  "defaultScenarios = map_of
     [(''base'', \<lparr>name = ''Base Case'', description = ''Normal market conditions'',
         sc_volatility = 0.2, sc_drift = 0.01, priceShock = 0, forwardBasis = Some 0,
         realBasis = None, isCustom = None, isEditable = Some True\<rparr>),
      (''highVol'', \<lparr>name = ''High Volatility'', description = ''Double volatility scenario'',
         sc_volatility = 0.4, sc_drift = 0.01, priceShock = 0, forwardBasis = Some 0,
         realBasis = None, isCustom = None, isEditable = Some True\<rparr>),
      (''crash'', \<lparr>name = ''Market Crash'',
         description = ''High volatility, negative drift, price shock'',
         sc_volatility = 0.5, sc_drift = - 0.03, priceShock = - 0.2, forwardBasis = Some 0,
         realBasis = None, isCustom = None, isEditable = Some True\<rparr>),
      (''bull'', \<lparr>name = ''Bull Market'',
         description = ''Low volatility, positive drift, upward shock'',
         sc_volatility = 0.15, sc_drift = 0.02, priceShock = 0.1, forwardBasis = Some 0,
         realBasis = None, isCustom = None, isEditable = Some True\<rparr>),
      (''contango'', \<lparr>name = ''Contango'',
         description = ''Forward prices higher than spot (monthly basis in %)'',
         sc_volatility = 0.2, sc_drift = 0.01, priceShock = 0, forwardBasis = Some 0.01,
         realBasis = None, isCustom = None, isEditable = Some True\<rparr>),
      (''backwardation'', \<lparr>name = ''Backwardation'',
         description = ''Forward prices lower than spot (monthly basis in %)'',
         sc_volatility = 0.2, sc_drift = 0.01, priceShock = 0, forwardBasis = Some (- 0.01),
         realBasis = None, isCustom = None, isEditable = Some True\<rparr>),
      (''contangoReal'', \<lparr>name = ''Contango (Real Prices)'',
         description = ''Real prices higher than spot (monthly basis in %)'',
         sc_volatility = 0.2, sc_drift = 0.01, priceShock = 0, forwardBasis = None,
         realBasis = Some 0.01, isCustom = None, isEditable = Some True\<rparr>),
      (''backwardationReal'', \<lparr>name = ''Backwardation (Real Prices)'',
         description = ''Real prices lower than spot (monthly basis in %)'',
         sc_volatility = 0.2, sc_drift = 0.01, priceShock = 0, forwardBasis = None,
         realBasis = Some (- 0.01), isCustom = None, isEditable = Some True\<rparr>),
      (''custom'', \<lparr>name = ''Custom Case'', description = ''User-defined scenario'',
         sc_volatility = 0.2, sc_drift = 0.01, priceShock = 0, forwardBasis = Some 0,
         realBasis = None, isCustom = Some True, isEditable = None\<rparr>)]"

text \<open>
  A sample state: three months from 15 January 2024 at spot 100 and 2 percent, one call
  at the money, no overrides, the simulation off, the starting catalog.
\<close>

definition sampleStart :: Date where
  "sampleStart = \<lparr>getFullYear = 2024, getMonth = 0, getDate = 15\<rparr>"

definition sampleParams :: Params where
  "sampleParams = \<lparr>startDate = sampleStart, monthsToHedge = 3, interestRate = 2,
     totalVolume = 1000000, spotPrice = 100\<rparr>"

definition sampleLeg :: StrategyComponent where
  "sampleLeg = \<lparr>optionType = Call, strike = 100, strikeType = Percent, volatility = 20,
     quantity = 100\<rparr>"

definition sampleState :: State where
  "sampleState = \<lparr>params = sampleParams, initialSpotPrice = 100, strategy = [sampleLeg],
     results = None, manualForwards = Map.empty, realPrices = Map.empty, payoffData = [],
     realPriceParams = \<lparr>useSimulation = False, rp_volatility = 0.3, rp_drift = 0.01,
       numSimulations = 1000\<rparr>,
     stressTestScenarios = defaultScenarios, activeStressTest = None,
     showImpliedVol = False, customVolatilities = Map.empty\<rparr>"

text \<open>The entry of the starting catalog under \<^verbatim>\<open>contango\<close>.\<close>

definition contangoScenario :: StressTestScenario where
  "contangoScenario = \<lparr>name = ''Contango'',
     description = ''Forward prices higher than spot (monthly basis in %)'',
     sc_volatility = 0.2, sc_drift = 0.01, priceShock = 0, forwardBasis = Some 0.01,
     realBasis = None, isCustom = None, isEditable = Some True\<rparr>"

text \<open>A sequence of draws of \<^verbatim>\<open>Math.random()\<close>: one half every time.\<close>

definition sampleDraws :: "nat \<Rightarrow> real" where
  "sampleDraws i = 1 / 2"

text \<open>
  The sample state with a catalog in which the real basis of the scenario
  \<^verbatim>\<open>contangoReal\<close> is defined and zero, as a saved state or a call of
  \<^verbatim>\<open>updateScenario\<close> with the field \<^verbatim>\<open>realBasis\<close> can leave it.
\<close>

definition zeroRealBasisScenario :: StressTestScenario where
  "zeroRealBasisScenario = \<lparr>name = ''Contango (Real Prices)'',
     description = ''Real prices higher than spot (monthly basis in %)'',
     sc_volatility = 0.2, sc_drift = 0.01, priceShock = 0, forwardBasis = None,
     realBasis = Some 0, isCustom = None, isEditable = Some True\<rparr>"

definition zeroRealBasisState :: State where
  "zeroRealBasisState =
     sampleState\<lparr>stressTestScenarios := defaultScenarios(''contangoReal'' \<mapsto> zeroRealBasisScenario)\<rparr>"

text \<open>The sample state with the forward of January 2024 overridden by zero.\<close>

definition zeroForwardState :: State where
  "zeroForwardState = sampleState\<lparr>manualForwards := [''2024-1'' \<mapsto> 0]\<rparr>"

text \<open>The sample state with the forward of March 2024 overridden by 105.\<close>

definition overrideState :: State where
  "overrideState = sampleState\<lparr>manualForwards := [''2024-3'' \<mapsto> 105]\<rparr>"

subsection \<open>The polynomial of the error function\<close>

text \<open>
  The five-term polynomial of \<open>erf_Index\<close> in \<open>t\<close>, its derivative, and the part of
  \<open>erf_Index\<close> that is subtracted from one, as a function of \<open>z = \<bar>x\<bar>\<close>.
\<close>

definition erfPoly :: "real \<Rightarrow> real" where
  "erfPoly t = (((((1.061405429 * t + - 1.453152027) * t) + 1.421413741) * t
     + - 0.284496736) * t + 0.254829592) * t"

definition erfPoly' :: "real \<Rightarrow> real" where
  "erfPoly' t = 0.254829592 + 2 * (- 0.284496736) * t + 3 * 1.421413741 * t ^ 2
     + 4 * (- 1.453152027) * t ^ 3 + 5 * 1.061405429 * t ^ 4"

definition erfTail :: "real \<Rightarrow> real" where
  "erfTail z = erfPoly (1 / (1 + 0.3275911 * z)) * exp (- (z * z))"

subsection \<open>The date part of an ISO string\<close>

text \<open>What \<^verbatim>\<open>toISOString\<close> puts before the letter \<^verbatim>\<open>T\<close>.\<close>

definition isoDatePart :: "Date \<Rightarrow> string" where
  "isoDatePart d =
     (if getFullYear d \<le> 9999 then padZero 4 (getFullYear d)
      else ''+'' @ padZero 6 (getFullYear d))
     @ ''-'' @ padZero 2 (getMonth d + 1) @ ''-'' @ padZero 2 (getDate d)"

subsection \<open>Running totals of the yearly sums\<close>

text \<open>What the reducer adds to an entry for one row, and the entry it starts from.\<close>

definition addRow :: "YearlyResult \<Rightarrow> Result \<Rightarrow> YearlyResult" where
  "addRow y row = \<lparr>y_hedgedCost = y_hedgedCost y + hedgedCost row,
     y_unhedgedCost = y_unhedgedCost y + unhedgedCost row,
     y_deltaPnL = y_deltaPnL y + deltaPnL row\<rparr>"

definition zeroYear :: YearlyResult where
  "zeroYear = \<lparr>y_hedgedCost = 0, y_unhedgedCost = 0, y_deltaPnL = 0\<rparr>"

subsection \<open>Months after a date\<close>

text \<open>
  The date \<open>k\<close> months after \<open>d\<close> with the day of the month kept: what
  \<^verbatim>\<open>setMonth\<close> gives when the day exists in every month (up to the 28th).
\<close>

definition addMonths :: "Date \<Rightarrow> nat \<Rightarrow> Date" where
  "addMonths d k = \<lparr>getFullYear = getFullYear d + (getMonth d + k) div 12,
     getMonth = (getMonth d + k) mod 12, getDate = getDate d\<rparr>"

section \<open>Properties\<close>

subsection \<open>The catalog\<close>

lemma defaultScenarios_contango: "defaultScenarios ''contango'' = Some contangoScenario"
  by (simp add: defaultScenarios_def contangoScenario_def)

lemma defaultScenarios_unknown: "defaultScenarios ''unknown'' = None"
  by (simp add: defaultScenarios_def)

lemma defaultScenarios_constructor: "defaultScenarios ''constructor'' = None"
  by (simp add: defaultScenarios_def)

subsection \<open>Put-call parity\<close>

text \<open>
  Claim C6. For a positive underlying, strike, time and volatility and any rate, the
  price of the call minus the price of the put equals the underlying minus the
  discounted strike. Over the reals the two sides are equal, so they agree within any
  tolerance, the spec's \<open>1e-4\<close> included; both pricers satisfy it, the later one for
  every setting of the implied-volatility flag, table and month key.
\<close>

theorem put_call_parity:
  assumes "0 < S" and "0 < K" and "0 < t" and "0 < sigma"
  shows "calculateOptionPrice showIV customVols Call S K r t sigma mk
           - calculateOptionPrice showIV customVols Put S K r t sigma mk
         = S - K * exp (- r * t)
       \<and> calculateOptionPrice_Index Call S K r t sigma
           - calculateOptionPrice_Index Put S K r t sigma
         = S - K * exp (- r * t)
       \<and> \<bar>calculateOptionPrice showIV customVols Call S K r t sigma mk
           - calculateOptionPrice showIV customVols Put S K r t sigma mk
           - (S - K * exp (- r * t))\<bar> \<le> 1 / 10 ^ 4"
proof -
  have a: "calculateOptionPrice showIV customVols Call S K r t sigma mk
             - calculateOptionPrice showIV customVols Put S K r t sigma mk
           = S - K * exp (- r * t)"
    by (simp add: calculateOptionPrice_def Let_def algebra_simps)
  have b: "calculateOptionPrice_Index Call S K r t sigma
             - calculateOptionPrice_Index Put S K r t sigma
           = S - K * exp (- r * t)"
    by (simp add: calculateOptionPrice_Index_def Let_def algebra_simps)
  show ?thesis
    using a b by simp
qed

theorem put_call_parity_witness:
  "(0::real) < 100 \<and> (0::real) < 95 \<and> (0::real) < 1 \<and> (0::real) < 1 / 5
   \<and> calculateOptionPrice False Map.empty Call 100 95 (1 / 50) 1 (1 / 5) None
       - calculateOptionPrice False Map.empty Put 100 95 (1 / 50) 1 (1 / 5) None
     = 100 - 95 * exp (- (1 / 50) * 1)
   \<and> calculateOptionPrice_Index Call 100 95 (1 / 50) 1 (1 / 5)
       - calculateOptionPrice_Index Put 100 95 (1 / 50) 1 (1 / 5)
     = 100 - 95 * exp (- (1 / 50) * 1)"
  using put_call_parity [of 100 95 1 "1 / 5" False Map.empty "1 / 50" None]
  by simp

subsection \<open>The two cost conventions\<close>

text \<open>
  Claim C10. For every monthly volume, real price, strategy price and total payoff, the
  difference of the earlier page (hedged minus unhedged, on negated costs) equals the
  difference of the later page (unhedged minus hedged, on positive costs), and both are
  the monthly volume times the total payoff minus the strategy price.
\<close>

theorem deltaPnL_variants_agree:
  "deltaPnL_Index (hedgedCost_Index mv rp sp tp) (unhedgedCost_Index mv rp)
     = deltaPnL_of (unhedgedCost_of mv rp) (hedgedCost_of mv rp sp tp)
   \<and> deltaPnL_Index (hedgedCost_Index mv rp sp tp) (unhedgedCost_Index mv rp)
     = mv * (tp - sp)
   \<and> deltaPnL_of (unhedgedCost_of mv rp) (hedgedCost_of mv rp sp tp) = mv * (tp - sp)"
  by (simp add: deltaPnL_Index_def hedgedCost_Index_def unhedgedCost_Index_def
      deltaPnL_of_def unhedgedCost_of_def hedgedCost_of_def algebra_simps)

theorem deltaPnL_variants_agree_witness:
  "deltaPnL_Index (hedgedCost_Index 1000 105 3 5) (unhedgedCost_Index 1000 105) = 2000
   \<and> deltaPnL_of (unhedgedCost_of 1000 105) (hedgedCost_of 1000 105 3 5) = 2000"
  using deltaPnL_variants_agree [of 1000 105 3 5] by simp

subsection \<open>Applying a scenario\<close>

lemma readProperty_own:
  "obj key = Some v \<Longrightarrow> readProperty obj key = OwnProperty v"
  by (simp add: readProperty_def)

lemma readProperty_inherited:
  "obj key = None \<Longrightarrow> key \<in> set objectPrototypeNames
     \<Longrightarrow> readProperty obj key = InheritedMember"
  by (simp add: readProperty_def)

lemma readProperty_undefined:
  "obj key = None \<Longrightarrow> key \<notin> set objectPrototypeNames
     \<Longrightarrow> readProperty obj key = UndefinedValue"
  by (simp add: readProperty_def)

lemma applyStressTest_own:
  "stressTestScenarios st key = Some K
     \<Longrightarrow> applyStressTest rnd key st = Typed (applyScenario rnd key K st)"
  by (simp add: applyStressTest_def readProperty_own)

lemma unknown_not_inherited: "''unknown'' \<notin> set objectPrototypeNames"
  by (simp add: objectPrototypeNames_def)

lemma constructor_inherited: "''constructor'' \<in> set objectPrototypeNames"
  by (simp add: objectPrototypeNames_def)

text \<open>
  Claim C7, as amended. Applying a scenario \<open>K\<close> of the catalog runs the body of the
  handler on \<open>K\<close> and leaves a state of the record type, in which the simulation is on
  exactly when the real basis of \<open>K\<close> is undefined or zero, and volatility and drift are
  those of \<open>K\<close>; the other simulation parameters stay.
\<close>

theorem applyStressTest_realPriceParams:
  assumes "stressTestScenarios st key = Some K"
  shows "applyStressTest rnd key st = Typed (applyScenario rnd key K st)
   \<and> realPriceParams (applyScenario rnd key K st)
     = (realPriceParams st)\<lparr>useSimulation := (realBasis K = None \<or> realBasis K = Some 0),
          rp_volatility := sc_volatility K, rp_drift := sc_drift K\<rparr>"
proof
  show "applyStressTest rnd key st = Typed (applyScenario rnd key K st)"
    using assms by (rule applyStressTest_own)
  show "realPriceParams (applyScenario rnd key K st)
     = (realPriceParams st)\<lparr>useSimulation := (realBasis K = None \<or> realBasis K = Some 0),
          rp_volatility := sc_volatility K, rp_drift := sc_drift K\<rparr>"
    by (auto simp add: applyScenario_def Let_def truthy_def split: prod.splits option.splits)
qed

theorem applyStressTest_realPriceParams_witness:
  "stressTestScenarios sampleState ''contango'' = Some contangoScenario
   \<and> applyStressTest sampleDraws ''contango'' sampleState
     = Typed (applyScenario sampleDraws ''contango'' contangoScenario sampleState)
   \<and> realPriceParams (applyScenario sampleDraws ''contango'' contangoScenario sampleState)
     = \<lparr>useSimulation = True, rp_volatility = 0.2, rp_drift = 0.01, numSimulations = 1000\<rparr>"
proof -
  have K: "stressTestScenarios sampleState ''contango'' = Some contangoScenario"
    by (simp add: sampleState_def defaultScenarios_contango)
  have R: "(realPriceParams sampleState)
         \<lparr>useSimulation := (realBasis contangoScenario = None \<or> realBasis contangoScenario = Some 0),
          rp_volatility := sc_volatility contangoScenario, rp_drift := sc_drift contangoScenario\<rparr>
     = \<lparr>useSimulation = True, rp_volatility = 0.2, rp_drift = 0.01, numSimulations = 1000\<rparr>"
    by (simp add: sampleState_def contangoScenario_def)
  show ?thesis
    using applyStressTest_realPriceParams [OF K, of sampleDraws] K by (simp only: R)
qed

text \<open>
  The claim as stated fails where the real basis is defined and zero: the simulation is
  turned on, not off.
\<close>

theorem applyStressTest_zero_realBasis_counterexample:
  "stressTestScenarios zeroRealBasisState ''contangoReal'' = Some zeroRealBasisScenario
   \<and> realBasis zeroRealBasisScenario = Some 0
   \<and> applyStressTest sampleDraws ''contangoReal'' zeroRealBasisState
     = Typed (applyScenario sampleDraws ''contangoReal'' zeroRealBasisScenario zeroRealBasisState)
   \<and> useSimulation
        (realPriceParams
           (applyScenario sampleDraws ''contangoReal'' zeroRealBasisScenario zeroRealBasisState))"
proof -
  have K: "stressTestScenarios zeroRealBasisState ''contangoReal'' = Some zeroRealBasisScenario"
    by (simp add: zeroRealBasisState_def)
  have z: "realBasis zeroRealBasisScenario = Some 0"
    by (simp add: zeroRealBasisScenario_def)
  have u: "useSimulation
        (realPriceParams
           (applyScenario sampleDraws ''contangoReal'' zeroRealBasisScenario zeroRealBasisState))"
    by (simp add: applyScenario_def z truthy_def Let_def split: prod.splits)
  show ?thesis
    using K z applyStressTest_own [OF K, of sampleDraws] u by simp
qed

text \<open>
  A key that the catalog lacks and \<^verbatim>\<open>Object.prototype\<close> has passes the guard. The
  handler then records the key, turns the simulation on, stores \<^verbatim>\<open>undefined\<close> as
  volatility and drift, and replaces results and payoff data by those of a projection.
\<close>

lemma applyStressTest_inherited:
  assumes "stressTestScenarios st key = None" and "key \<in> set objectPrototypeNames"
  shows "applyStressTest rnd key st
     = UndefinedParams
         (st\<lparr>activeStressTest := Some key,
              realPriceParams := (realPriceParams st)\<lparr>useSimulation := True\<rparr>,
              results := results (calculateResults rnd st),
              payoffData := payoffData (calculateResults rnd st)\<rparr>)"
  using assms by (simp add: applyStressTest_def readProperty_def Let_def)

text \<open>
  Claim C8, as amended. For a key whose read of the catalog gives \<^verbatim>\<open>undefined\<close>, that
  is a key that the catalog lacks and that names no member of \<^verbatim>\<open>Object.prototype\<close>,
  applying the scenario records the key as the active scenario and changes nothing else:
  the state that is left has the record type, and parameters, simulation parameters,
  overrides, results and payoff data are as they were.
\<close>

theorem applyStressTest_absent:
  assumes "stressTestScenarios st key = None" and "key \<notin> set objectPrototypeNames"
  shows "applyStressTest rnd key st = Typed (st\<lparr>activeStressTest := Some key\<rparr>)"
  using assms by (simp add: applyStressTest_def readProperty_def)

theorem applyStressTest_absent_witness:
  "stressTestScenarios sampleState ''unknown'' = None
   \<and> ''unknown'' \<notin> set objectPrototypeNames
   \<and> applyStressTest sampleDraws ''unknown'' sampleState
       = Typed (sampleState\<lparr>activeStressTest := Some ''unknown''\<rparr>)"
proof -
  have K: "stressTestScenarios sampleState ''unknown'' = None"
    by (simp add: sampleState_def defaultScenarios_unknown)
  show ?thesis
    using applyStressTest_absent [OF K unknown_not_inherited, of sampleDraws] K
      unknown_not_inherited by simp
qed

text \<open>
  The claim as stated fails twice on the sample state, whose simulation is off. For the
  absent key \<^verbatim>\<open>unknown\<close> the marker of the active scenario changes. For the absent key
  \<^verbatim>\<open>constructor\<close>, which every object inherits, the handler does not return at the
  guard: the simulation is turned on, volatility and drift are left undefined, and the
  rows of a projection are stored.
\<close>

theorem applyStressTest_absent_counterexample:
  "stressTestScenarios sampleState ''unknown'' = None
   \<and> applyStressTest sampleDraws ''unknown'' sampleState
       = Typed (sampleState\<lparr>activeStressTest := Some ''unknown''\<rparr>)
   \<and> activeStressTest (sampleState\<lparr>activeStressTest := Some ''unknown''\<rparr>)
       \<noteq> activeStressTest sampleState
   \<and> stressTestScenarios sampleState ''constructor'' = None
   \<and> applyStressTest sampleDraws ''constructor'' sampleState
       = UndefinedParams
           (sampleState
              \<lparr>activeStressTest := Some ''constructor'',
               realPriceParams := (realPriceParams sampleState)\<lparr>useSimulation := True\<rparr>,
               results := results (calculateResults sampleDraws sampleState),
               payoffData := payoffData (calculateResults sampleDraws sampleState)\<rparr>)
   \<and> \<not> useSimulation (realPriceParams sampleState)"
proof -
  have K: "stressTestScenarios sampleState ''unknown'' = None"
    by (simp add: sampleState_def defaultScenarios_unknown)
  have a: "applyStressTest sampleDraws ''unknown'' sampleState
       = Typed (sampleState\<lparr>activeStressTest := Some ''unknown''\<rparr>)"
    using K unknown_not_inherited by (simp add: applyStressTest_def readProperty_def)
  have m: "activeStressTest (sampleState\<lparr>activeStressTest := Some ''unknown''\<rparr>)
       \<noteq> activeStressTest sampleState"
    by (simp add: sampleState_def)
  have C: "stressTestScenarios sampleState ''constructor'' = None"
    by (simp add: sampleState_def defaultScenarios_constructor)
  have u: "\<not> useSimulation (realPriceParams sampleState)"
    by (simp add: sampleState_def)
  show ?thesis
    apply (intro conjI)
         apply (rule K)
        apply (rule a)
       apply (rule m)
      apply (rule C)
     apply (rule applyStressTest_inherited [OF C constructor_inherited])
    apply (rule u)
    done
qed

subsection \<open>The normal distribution function\<close>

lemma erf_Index_erfPoly:
  "erf_Index x = (if x < 0 then - 1 else 1)
     * (1 - erfPoly (1 / (1 + 0.3275911 * \<bar>x\<bar>)) * exp (- (x * x)))"
  by (simp add: erf_Index_def erfPoly_def Let_def)

lemma erfPoly_deriv: "(erfPoly has_real_derivative erfPoly' t) (at t)"
  unfolding erfPoly_def [abs_def] erfPoly'_def
  by (auto intro!: derivative_eq_intros
      simp: power2_eq_square power3_eq_cube power4_eq_xxxx algebra_simps)

text \<open>
  The derivative splits into \<open>t\<^sup>2\<close> times a quadratic and another quadratic; each
  quadratic is a square plus a positive rest.
\<close>

lemma erfPoly'_low: "0 \<le> 2 * t ^ 2 + 2 * (- 0.284496736) * t + (0.254829592 :: real)"
  using zero_le_power2 [of "2 * t - 0.284496736"]
  by (simp add: power2_eq_square algebra_simps)

lemma erfPoly'_high:
  "0 \<le> 5 * 1.061405429 * t ^ 2 + 4 * (- 1.453152027) * t + (3 * 1.421413741 - 2 :: real)"
  using zero_le_power2 [of "5.307027145 * t - 2.906304054"]
  by (simp add: power2_eq_square algebra_simps)

lemma erfPoly'_nonneg: "0 \<le> erfPoly' t"
proof -
  have "erfPoly' t =
      t ^ 2 * (5 * 1.061405429 * t ^ 2 + 4 * (- 1.453152027) * t + (3 * 1.421413741 - 2))
      + (2 * t ^ 2 + 2 * (- 0.284496736) * t + 0.254829592)"
    by (simp add: erfPoly'_def power2_eq_square power3_eq_cube power4_eq_xxxx algebra_simps)
  moreover have
    "0 \<le> t ^ 2 * (5 * 1.061405429 * t ^ 2 + 4 * (- 1.453152027) * t + (3 * 1.421413741 - 2))"
    using erfPoly'_high [of t] by (intro mult_nonneg_nonneg) auto
  ultimately show ?thesis
    using erfPoly'_low [of t] by linarith
qed

lemma erfPoly_mono: "s \<le> t \<Longrightarrow> erfPoly s \<le> erfPoly t"
  by (rule DERIV_nonneg_imp_nondecreasing [of s t erfPoly])
    (auto intro: erfPoly_deriv erfPoly'_nonneg)

lemma erfPoly_nonneg: "0 \<le> t \<Longrightarrow> 0 \<le> erfPoly t"
  using erfPoly_mono [of 0 t] by (simp add: erfPoly_def)

lemma erfTail_antimono:
  assumes "0 \<le> z" and "z \<le> z'"
  shows "erfTail z' \<le> erfTail z"
proof -
  have pos: "0 < 1 + 0.3275911 * z" "0 < 1 + 0.3275911 * z'"
    using assms by auto
  have "1 / (1 + 0.3275911 * z') \<le> 1 / (1 + 0.3275911 * z)"
    using assms pos by (simp add: frac_le)
  then have p: "erfPoly (1 / (1 + 0.3275911 * z')) \<le> erfPoly (1 / (1 + 0.3275911 * z))"
    by (rule erfPoly_mono)
  have "z * z \<le> z' * z'"
    using assms by (simp add: mult_mono)
  then have e: "exp (- (z' * z')) \<le> exp (- (z * z))"
    by simp
  have "0 \<le> erfPoly (1 / (1 + 0.3275911 * z'))"
    using pos by (intro erfPoly_nonneg) simp
  then show ?thesis
    unfolding erfTail_def using p e by (intro mult_mono) auto
qed

lemma erfTail_0: "erfTail 0 = 0.999999999"
  by (simp add: erfTail_def erfPoly_def)

lemma erfTail_le: "0 \<le> z \<Longrightarrow> erfTail z \<le> 0.999999999"
  using erfTail_antimono [of 0 z] by (simp add: erfTail_0)

lemma erf_Index_erfTail:
  "erf_Index x = (if x < 0 then - (1 - erfTail (- x)) else 1 - erfTail x)"
  by (simp add: erf_Index_erfPoly erfTail_def)

lemma erf_Index_mono:
  assumes "x \<le> y"
  shows "erf_Index x \<le> erf_Index y"
proof -
  consider "0 \<le> x" | "y < 0" | "x < 0" "0 \<le> y"
    by linarith
  then show ?thesis
  proof cases
    case 1
    then show ?thesis
      using assms erfTail_antimono [of x y] by (simp add: erf_Index_erfTail)
  next
    case 2
    then show ?thesis
      using assms erfTail_antimono [of "- y" "- x"] by (simp add: erf_Index_erfTail)
  next
    case 3
    then show ?thesis
      using erfTail_le [of "- x"] erfTail_le [of y] by (simp add: erf_Index_erfTail)
  qed
qed

lemma cdf_Index_mono: "x \<le> y \<Longrightarrow> cdf_Index x \<le> cdf_Index y"
  using erf_Index_mono [of "x / sqrt 2" "y / sqrt 2"]
  by (simp add: cdf_Index_def divide_right_mono)

lemma erf_Index_odd: "x \<noteq> 0 \<Longrightarrow> erf_Index (- x) = - erf_Index x"
  by (simp add: erf_Index_erfTail)

lemma erf_odd: "x \<noteq> 0 \<Longrightarrow> erf (- x) = - erf x"
  by (simp add: erf_def Let_def)

lemma cdf_Index_sym: "x \<noteq> 0 \<Longrightarrow> cdf_Index (- x) = 1 - cdf_Index x"
  using erf_Index_odd [of "x / sqrt 2"] by (simp add: cdf_Index_def field_simps)

lemma cdf_sym: "x \<noteq> 0 \<Longrightarrow> cdf (- x) = 1 - cdf x"
  using erf_odd [of "x / sqrt 2"] by (simp add: cdf_def field_simps)

lemma cdf_Index_0: "cdf_Index 0 = 0.5000000005"
  by (simp add: cdf_Index_def erf_Index_def Let_def)

text \<open>
  The error function of \<^verbatim>\<open>part_001\<close> leaves the term of \<^verbatim>\<open>a1\<close> out, so at zero
  it returns \<open>1 - (a2 + a3 + a4 + a5)\<close> and the distribution function is far from one
  half.
\<close>

lemma erf_0: "erf 0 = 0.254829593"
  by (simp add: erf_def Let_def)

lemma cdf_0: "cdf 0 = 0.6274147965"
  by (simp add: cdf_def erf_0)

text \<open>
  Claim C3, as amended. Over the five-term error function of \<^verbatim>\<open>src/pages/Index.tsx\<close>
  the distribution function is \<open>0.5000000005\<close> at zero (the five coefficients add up to
  \<open>0.999999999\<close>), satisfies \<open>cdf (- x) = 1 - cdf x\<close> for every \<open>x\<close> other than zero, and
  is monotonically non-decreasing. The symmetry away from zero also holds for the
  function of \<^verbatim>\<open>part_001\<close>.
\<close>

theorem cdf_Index_properties:
  "cdf_Index 0 = 1 / 2 + 5 / 10 ^ 10
   \<and> (\<forall>x. x \<noteq> 0 \<longrightarrow> cdf_Index (- x) = 1 - cdf_Index x)
   \<and> (\<forall>x y. x \<le> y \<longrightarrow> cdf_Index x \<le> cdf_Index y)
   \<and> (\<forall>x. x \<noteq> 0 \<longrightarrow> cdf (- x) = 1 - cdf x)"
  using cdf_Index_mono cdf_Index_sym cdf_sym by (simp add: cdf_Index_0)

theorem cdf_Index_properties_witness:
  "cdf_Index 0 = 1 / 2 + 5 / 10 ^ 10
   \<and> (1::real) \<noteq> 0 \<and> cdf_Index (- 1) = 1 - cdf_Index 1
   \<and> (1::real) \<le> 2 \<and> cdf_Index 1 \<le> cdf_Index 2
   \<and> cdf (- 1) = 1 - cdf 1"
  using cdf_Index_properties by simp

text \<open>
  The claim as stated fails at zero for both variants: neither distribution function is
  one half there (and so \<open>cdf (- 0) = 1 - cdf 0\<close> fails too).
\<close>

theorem cdf_zero_counterexample:
  "cdf_Index 0 \<noteq> 1 / 2 \<and> cdf 0 \<noteq> 1 / 2 \<and> cdf_Index (- 0) \<noteq> 1 - cdf_Index 0"
  by (simp add: cdf_Index_0 cdf_0)

subsection \<open>Rows of the projector\<close>

lemma results_calculatePayoff: "results (calculatePayoff st) = results st"
  by (simp add: calculatePayoff_def Let_def)

lemma results_calculateResults:
  "strategy st \<noteq> [] \<Longrightarrow>
   results (calculateResults rnd st)
     = Some (map (resultRow rnd st) [0..<monthsToHedge (params st)])"
  by (simp add: calculateResults_def results_calculatePayoff)

lemma results_calculatePayoff_Index: "results (calculatePayoff_Index st) = results st"
  by (simp add: calculatePayoff_Index_def Let_def)

lemma results_calculateResults_Index:
  "results (calculateResults_Index rnd st)
     = Some (map (resultRow_Index st) (months_Index (params st)))"
  by (simp add: calculateResults_Index_def Let_def results_calculatePayoff_Index)








lemma resultRow_timeToMaturity:
  "timeToMaturity (resultRow rnd st i) =
     (if i = 0
      then (real (getDate (lastDayOfMonth (getFullYear (startDate (params st)))
                    (getMonth (startDate (params st)))))
             - real (getDate (startDate (params st))) + 1)
           / (real (getDate (lastDayOfMonth (getFullYear (startDate (params st)))
                    (getMonth (startDate (params st)))))
              * real (monthsToHedge (params st)))
      else real i / real (monthsToHedge (params st)))"
  by (simp only: resultRow_def Let_def Result.select_convs)

lemma resultRow_forward:
  "forward (resultRow rnd st i) =
     orElse (manualForwards st (monthKey (setMonth (startDate (params st))
        (getMonth (startDate (params st)) + i)))) (spotPrice (params st))"
  by (simp only: resultRow_def Let_def Result.select_convs)


lemma resultRow_Index_forward:
  "forward (resultRow_Index st d) =
     orElse (manualForwards st (monthKey d))
       (spotPrice (params st)
          * exp (interestRate (params st) / 100 * msBetween d (startDate (params st))
                   / (1000 * 60 * 60 * 24 * 365)))"
  by (simp only: resultRow_Index_def Let_def Result.select_convs)

text \<open>
  The costs of a row through the cost functions of its page, and the time to maturity of
  the earlier page: the days from the start date to the month end over 325.25.
\<close>

lemma resultRow_Index_costs:
  "hedgedCost (resultRow_Index st d)
     = hedgedCost_Index (monthlyVolume (resultRow_Index st d)) (realPrice (resultRow_Index st d))
         (strategyPrice (resultRow_Index st d)) (totalPayoff (resultRow_Index st d))"
  "unhedgedCost (resultRow_Index st d)
     = unhedgedCost_Index (monthlyVolume (resultRow_Index st d)) (realPrice (resultRow_Index st d))"
  "deltaPnL (resultRow_Index st d)
     = deltaPnL_Index (hedgedCost (resultRow_Index st d)) (unhedgedCost (resultRow_Index st d))"
  by (simp_all only: resultRow_Index_def Let_def Result.select_convs)

lemma resultRow_costs_of:
  "hedgedCost (resultRow rnd st i)
     = hedgedCost_of (monthlyVolume (resultRow rnd st i)) (realPrice (resultRow rnd st i))
         (strategyPrice (resultRow rnd st i)) (totalPayoff (resultRow rnd st i))"
  "unhedgedCost (resultRow rnd st i)
     = unhedgedCost_of (monthlyVolume (resultRow rnd st i)) (realPrice (resultRow rnd st i))"
  "deltaPnL (resultRow rnd st i)
     = deltaPnL_of (unhedgedCost (resultRow rnd st i)) (hedgedCost (resultRow rnd st i))"
  by (simp_all only: resultRow_def Let_def Result.select_convs)

lemma resultRow_Index_unhedgedCost:
  "unhedgedCost (resultRow_Index st d)
     = - (monthlyVolume (resultRow_Index st d) * realPrice (resultRow_Index st d))"
  by (simp only: resultRow_Index_costs unhedgedCost_Index_def)

lemma resultRow_Index_timeToMaturity:
  "timeToMaturity (resultRow_Index st d)
     = \<bar>real (dayNumber d) - real (dayNumber (startDate (params st)))\<bar> / 325.25"
proof -
  have "timeToMaturity (resultRow_Index st d)
      = \<bar>msBetween d (startDate (params st))\<bar> / (325.25 * 24 * 60 * 60 * 1000)"
    by (simp only: resultRow_Index_def Let_def Result.select_convs)
  also have "\<bar>msBetween d (startDate (params st))\<bar>
      = \<bar>real (dayNumber d) - real (dayNumber (startDate (params st)))\<bar> * 86400000"
    unfolding msBetween_def abs_mult by simp
  finally show ?thesis
    by simp
qed

subsection \<open>Calendar facts\<close>

lemma isLeap_two_digit:
  assumes "1 \<le> y" and "y < 100"
  shows "isLeap (1900 + y) = isLeap y"
proof -
  have a: "(1900 + y) mod 4 = y mod 4"
    by presburger
  have b: "y mod 100 \<noteq> 0" "(1900 + y) mod 100 \<noteq> 0"
    using assms by presburger+
  show ?thesis
    by (simp add: isLeap_def a b del: One_nat_def)
qed

lemma getDate_lastDayOfMonth:
  "1 \<le> y \<Longrightarrow> getDate (lastDayOfMonth y m) = daysInMonth y m"
  by (simp add: lastDayOfMonth_def Let_def daysInMonth_def isLeap_two_digit del: One_nat_def)

subsection \<open>Strings of dates\<close>

lemma digitChar_digit: "n < 10 \<Longrightarrow> digitChar n \<in> set ''0123456789''"
  unfolding digitChar_def by (rule nth_mem) simp

lemma set_showNat: "set (showNat n) \<subseteq> set ''0123456789''"
proof (induction n rule: showNat.induct)
  case (1 n)
  show ?case
  proof (cases "n < 10")
    case True
    have "showNat n = [digitChar n]"
      using True by (subst showNat.simps) simp
    then show ?thesis
      using digitChar_digit [OF True] by simp
  next
    case False
    have d: "digitChar (n mod 10) \<in> set ''0123456789''"
      by (rule digitChar_digit) simp
    have "showNat n = showNat (n div 10) @ [digitChar (n mod 10)]"
      using False by (subst showNat.simps) simp
    then show ?thesis
      using 1 [OF False] d by simp
  qed
qed

lemma notin_showNat: "c \<notin> set ''0123456789'' \<Longrightarrow> c \<notin> set (showNat n)"
  using set_showNat [of n] by blast

lemma notin_padZero: "c \<notin> set ''0123456789'' \<Longrightarrow> c \<notin> set (padZero w n)"
  using notin_showNat [of c n] by (auto simp: padZero_def)

lemma toISOString_isoDatePart: "toISOString d = isoDatePart d @ CHR ''T'' # ''00:00:00.000Z''"
  by (simp add: toISOString_def isoDatePart_def)

lemma notin_isoDatePart:
  assumes "c \<notin> set ''0123456789''" and "c \<noteq> CHR ''+''" and "c \<noteq> CHR ''-''"
  shows "c \<notin> set (isoDatePart d)"
  using assms notin_padZero [OF assms(1)] by (simp add: isoDatePart_def)

lemma isoDatePart_no_T: "CHR ''T'' \<notin> set (isoDatePart d)"
  by (rule notin_isoDatePart) simp_all

lemma isoDatePart_no_space: "CHR '' '' \<notin> set (isoDatePart d)"
  by (rule notin_isoDatePart) simp_all

lemma splitJS_nonempty: "splitJS c s \<noteq> []"
  by (induction s) (auto split: list.splits)

lemma splitJS_no_separator: "c \<notin> set s \<Longrightarrow> splitJS c s = [s]"
  by (induction s) auto

lemma hd_splitJS_append: "c \<notin> set xs \<Longrightarrow> hd (splitJS c (xs @ c # ys)) = xs"
  by (induction xs) (auto split: list.splits simp: splitJS_nonempty)

lemma hd_split_toISOString: "hd (splitJS CHR ''T'' (toISOString d)) = isoDatePart d"
  unfolding toISOString_isoDatePart by (rule hd_splitJS_append) (rule isoDatePart_no_T)

lemma date_resultRow:
  "date (resultRow rnd st i) = isoDatePart (setMonth (startDate (params st))
     (getMonth (startDate (params st)) + i))"
  by (simp only: resultRow_def Let_def Result.select_convs hd_split_toISOString)

lemma rowYear_resultRow: "rowYear (resultRow rnd st i) = None"
  by (simp add: rowYear_def date_resultRow splitJS_no_separator [OF isoDatePart_no_space]
      index_def)

lemma dom_yearlyStep: "dom (yearlyStep acc row) = insert (propertyKey (rowYear row)) (dom acc)"
proof (cases "acc (propertyKey (rowYear row))")
  case None
  then show ?thesis
    by (simp add: yearlyStep_def Let_def isValidResult_def)
next
  case (Some y)
  then have "propertyKey (rowYear row) \<in> dom acc"
    by blast
  then show ?thesis
    using Some by (simp add: yearlyStep_def Let_def isValidResult_def insert_absorb)
qed

lemma dom_foldl_yearlyStep:
  "dom (foldl yearlyStep acc rs) = dom acc \<union> (\<lambda>r. propertyKey (rowYear r)) ` set rs"
  by (induction rs arbitrary: acc) (simp_all add: dom_yearlyStep)

lemma dom_calculateYearlyResults:
  "dom (calculateYearlyResults rs) = (\<lambda>r. propertyKey (rowYear r)) ` set rs"
  by (simp add: calculateYearlyResults_def dom_foldl_yearlyStep)

subsection \<open>The sample state\<close>

lemma sample_row_keys:
  "monthKey (setMonth sampleStart (getMonth sampleStart + 0)) = ''2024-1''"
  "monthKey (setMonth sampleStart (getMonth sampleStart + 1)) = ''2024-2''"
  "monthKey (setMonth sampleStart (getMonth sampleStart + 2)) = ''2024-3''"
  by (simp_all add: setMonth_def sampleStart_def daysInMonth_def isLeap_def Let_def
      monthKey_def showNat.simps digitChar_def)

lemma sample_row_forward:
  assumes "params st = sampleParams"
  shows "forward (resultRow rnd st 0) = orElse (manualForwards st ''2024-1'') 100"
    and "forward (resultRow rnd st 1) = orElse (manualForwards st ''2024-2'') 100"
    and "forward (resultRow rnd st 2) = orElse (manualForwards st ''2024-3'') 100"
proof -
  have p: "startDate (params st) = sampleStart" "spotPrice (params st) = 100"
    by (simp_all add: assms sampleParams_def)
  show "forward (resultRow rnd st 0) = orElse (manualForwards st ''2024-1'') 100"
    by (simp only: resultRow_forward p sample_row_keys)
  show "forward (resultRow rnd st 1) = orElse (manualForwards st ''2024-2'') 100"
    by (simp only: resultRow_forward p sample_row_keys)
  show "forward (resultRow rnd st 2) = orElse (manualForwards st ''2024-3'') 100"
    by (simp only: resultRow_forward p sample_row_keys)
qed

lemma sample_results:
  assumes "params st = sampleParams" and "strategy st \<noteq> []"
  shows "results (calculateResults rnd st)
    = Some [resultRow rnd st 0, resultRow rnd st 1, resultRow rnd st 2]"
proof -
  have n: "monthsToHedge (params st) = 3"
    by (simp add: assms sampleParams_def)
  have u: "[0..<3] = [0, 1, 2]"
    by (simp add: upt_rec)
  show ?thesis
    by (simp only: results_calculateResults [OF assms(2)] n u list.map)
qed

lemma sample_fields:
  "params sampleState = sampleParams" "strategy sampleState = [sampleLeg]"
  "manualForwards sampleState = Map.empty" "realPrices sampleState = Map.empty"
  "useSimulation (realPriceParams sampleState) = False"
  by (simp_all add: sampleState_def)


subsection \<open>Cost accounting of a period\<close>



subsection \<open>Time to maturity\<close>

lemma validDate_sampleStart: "validDate sampleStart"
  by (simp add: validDate_def sampleStart_def daysInMonth_def)

text \<open>
  Claim C4. For a start date that is a date of the calendar (year one or later) and a
  horizon of at least one month, the projector of \<^verbatim>\<open>part_001\<close> gives period \<open>0\<close> the
  time to maturity (days remaining in the start month, the start day included, divided
  by the days of that month) divided by the number of months, and every period
  \<open>i \<ge> 1\<close> the time to maturity \<open>i\<close> divided by the number of months.
\<close>

theorem timeToMaturity_periods:
  assumes "strategy st \<noteq> []" and "validDate (startDate (params st))"
    and "0 < monthsToHedge (params st)"
  shows "\<exists>rs. results (calculateResults rnd st) = Some rs
     \<and> length rs = monthsToHedge (params st)
     \<and> timeToMaturity (rs ! 0) =
         (real (daysInMonth (getFullYear (startDate (params st))) (getMonth (startDate (params st)))
                 - getDate (startDate (params st)) + 1)
          / real (daysInMonth (getFullYear (startDate (params st)))
                    (getMonth (startDate (params st)))))
         / real (monthsToHedge (params st))
     \<and> (\<forall>i. 1 \<le> i \<and> i < monthsToHedge (params st)
            \<longrightarrow> timeToMaturity (rs ! i) = real i / real (monthsToHedge (params st)))"
proof -
  let ?rs = "map (resultRow rnd st) [0..<monthsToHedge (params st)]"
  have r: "results (calculateResults rnd st) = Some ?rs"
    using assms(1) by (rule results_calculateResults)
  have y: "1 \<le> getFullYear (startDate (params st))"
    and d: "getDate (startDate (params st))
              \<le> daysInMonth (getFullYear (startDate (params st))) (getMonth (startDate (params st)))"
    using assms(2) by (simp_all add: validDate_def)
  have "?rs ! 0 = resultRow rnd st 0"
    using assms(3) by simp
  then have z: "timeToMaturity (?rs ! 0) =
         (real (daysInMonth (getFullYear (startDate (params st))) (getMonth (startDate (params st)))
                 - getDate (startDate (params st)) + 1)
          / real (daysInMonth (getFullYear (startDate (params st)))
                    (getMonth (startDate (params st)))))
         / real (monthsToHedge (params st))"
    by (simp add: resultRow_timeToMaturity getDate_lastDayOfMonth [OF y] of_nat_diff [OF d])
  have p: "timeToMaturity (?rs ! i) = real i / real (monthsToHedge (params st))"
    if "1 \<le> i" "i < monthsToHedge (params st)" for i
    using that by (simp add: resultRow_timeToMaturity)
  show ?thesis
    using r z p by (intro exI [of _ ?rs]) simp
qed

theorem timeToMaturity_periods_witness:
  "strategy sampleState \<noteq> [] \<and> validDate (startDate (params sampleState))
   \<and> 0 < monthsToHedge (params sampleState)
   \<and> (\<exists>rs. results (calculateResults sampleDraws sampleState) = Some rs
        \<and> length rs = 3
        \<and> timeToMaturity (rs ! 0) = (17 / 31) / 3
        \<and> timeToMaturity (rs ! 2) = 2 / 3)"
proof -
  have h: "strategy sampleState \<noteq> []" "validDate (startDate (params sampleState))"
    "0 < monthsToHedge (params sampleState)"
    by (simp_all add: sample_fields sampleParams_def validDate_sampleStart)
  have v: "monthsToHedge (params sampleState) = 3"
    "daysInMonth (getFullYear (startDate (params sampleState)))
       (getMonth (startDate (params sampleState))) = 31"
    "getDate (startDate (params sampleState)) = 15"
    by (simp_all add: sample_fields sampleParams_def sampleStart_def daysInMonth_def)
  obtain rs where rs: "results (calculateResults sampleDraws sampleState) = Some rs"
    "length rs = monthsToHedge (params sampleState)"
    "timeToMaturity (rs ! 0) =
         (real (daysInMonth (getFullYear (startDate (params sampleState)))
                  (getMonth (startDate (params sampleState)))
                 - getDate (startDate (params sampleState)) + 1)
          / real (daysInMonth (getFullYear (startDate (params sampleState)))
                    (getMonth (startDate (params sampleState)))))
         / real (monthsToHedge (params sampleState))"
    "\<forall>i. 1 \<le> i \<and> i < monthsToHedge (params sampleState)
            \<longrightarrow> timeToMaturity (rs ! i) = real i / real (monthsToHedge (params sampleState))"
    using timeToMaturity_periods [OF h, of sampleDraws] by blast
  have len: "length rs = 3"
    using rs(2) by (simp only: v(1))
  have t0: "timeToMaturity (rs ! 0) = (17 / 31) / 3"
    using rs(3) by (simp add: v)
  have t2: "timeToMaturity (rs ! 2) = 2 / 3"
    using rs(4) by (simp add: v)
  show ?thesis
    using h rs(1) len t0 t2 by blast
qed

subsection \<open>Forward price of a period\<close>

lemma elapsed_years:
  "r * msBetween d s / (1000 * 60 * 60 * 24 * 365)
     = r * ((real (dayNumber d) - real (dayNumber s)) / 365)"
  by (simp add: msBetween_def)

lemma orElse_Some: "v \<noteq> 0 \<Longrightarrow> orElse (Some v) b = v"
  by (simp add: orElse_def)

lemma orElse_case:
  "orElse a b = (case a of None \<Rightarrow> b | Some v \<Rightarrow> if v \<noteq> 0 then v else b)"
  by (simp add: orElse_def)

lemma override_fields:
  "params overrideState = sampleParams" "strategy overrideState = [sampleLeg]"
  "manualForwards overrideState = [''2024-3'' \<mapsto> 105]"
  by (simp_all add: overrideState_def sampleState_def)

lemma months_Index_sample:
  "0 < length (months_Index sampleParams)"
  "months_Index sampleParams ! 0 = \<lparr>getFullYear = 2024, getMonth = 0, getDate = 31\<rparr>"
  by (simp_all add: months_Index_def Let_def lastDayOfMonth_def sampleParams_def sampleStart_def
      daysInMonth_def)

lemma sample_elapsed_days:
  "real (dayNumber \<lparr>getFullYear = 2024, getMonth = 0, getDate = 31\<rparr>)
     - real (dayNumber sampleStart) = 16"
  by (simp add: dayNumber_def sampleStart_def daysBeforeMonth_def)

lemma monthKey_january_end:
  "monthKey \<lparr>getFullYear = 2024, getMonth = 0, getDate = 31\<rparr> = ''2024-1''"
  by (simp add: monthKey_def showNat.simps digitChar_def)

lemma zeroForward_fields:
  "params zeroForwardState = sampleParams" "strategy zeroForwardState = [sampleLeg]"
  "manualForwards zeroForwardState = [''2024-1'' \<mapsto> 0]"
  by (simp_all add: zeroForwardState_def sampleState_def)

text \<open>
  Without a usable override the projector of \<^verbatim>\<open>part_001\<close> takes the spot price as
  it is, with no carry.
\<close>

lemma resultRow_forward_fallback:
  assumes "manualForwards st (monthKey (setMonth (startDate (params st))
             (getMonth (startDate (params st)) + i))) = None"
  shows "forward (resultRow rnd st i) = spotPrice (params st)"
  unfolding resultRow_forward assms by (simp add: orElse_def)

text \<open>
  Claim C5, as amended. In both projectors the forward price of a period is the manual
  override under the period's year-month key when that key holds a value other than
  zero (\<^verbatim>\<open>manualForwards[monthKey] || ...\<close>). When the key is absent or holds zero, the
  projector of \<^verbatim>\<open>src/pages/Index.tsx\<close> gives the spot price times \<open>e\<close> to the rate
  (the interest rate in percent over 100) times the elapsed years, the days from the
  start date to the period's date over 365.
\<close>

theorem forward_price_resolution:
  assumes "strategy st \<noteq> []" and "i < monthsToHedge (params st)"
    and "j < length (months_Index (params st))"
  shows "(\<exists>rs. results (calculateResults rnd st) = Some rs
            \<and> length rs = monthsToHedge (params st)
            \<and> (\<forall>v. manualForwards st
                     (monthKey (setMonth (startDate (params st))
                        (getMonth (startDate (params st)) + i))) = Some v \<and> v \<noteq> 0
                   \<longrightarrow> forward (rs ! i) = v))
       \<and> (\<exists>rs. results (calculateResults_Index rnd st) = Some rs
            \<and> length rs = length (months_Index (params st))
            \<and> forward (rs ! j) =
                (case manualForwards st (monthKey (months_Index (params st) ! j)) of
                   None \<Rightarrow>
                     spotPrice (params st)
                       * exp (interestRate (params st) / 100
                           * ((real (dayNumber (months_Index (params st) ! j))
                                - real (dayNumber (startDate (params st)))) / 365))
                 | Some v \<Rightarrow>
                     if v \<noteq> 0 then v
                     else spotPrice (params st)
                       * exp (interestRate (params st) / 100
                           * ((real (dayNumber (months_Index (params st) ! j))
                                - real (dayNumber (startDate (params st)))) / 365))))"
proof (intro conjI)
  let ?rs = "map (resultRow rnd st) [0..<monthsToHedge (params st)]"
  have r: "results (calculateResults rnd st) = Some ?rs"
    using assms(1) by (rule results_calculateResults)
  have n: "?rs ! i = resultRow rnd st i"
    using assms(2) by simp
  have "forward (?rs ! i) = v"
    if "manualForwards st (monthKey (setMonth (startDate (params st))
          (getMonth (startDate (params st)) + i))) = Some v" "v \<noteq> 0" for v
    unfolding n resultRow_forward that(1) using that(2) by (rule orElse_Some)
  then show "\<exists>rs. results (calculateResults rnd st) = Some rs
            \<and> length rs = monthsToHedge (params st)
            \<and> (\<forall>v. manualForwards st
                     (monthKey (setMonth (startDate (params st))
                        (getMonth (startDate (params st)) + i))) = Some v \<and> v \<noteq> 0
                   \<longrightarrow> forward (rs ! i) = v)"
    using r by (intro exI [of _ ?rs]) simp
next
  let ?ms = "months_Index (params st)"
  let ?rs = "map (resultRow_Index st) ?ms"
  have r: "results (calculateResults_Index rnd st) = Some ?rs"
    by (rule results_calculateResults_Index)
  have n: "?rs ! j = resultRow_Index st (?ms ! j)"
    using assms(3) by simp
  have f: "forward (?rs ! j) =
                (case manualForwards st (monthKey (?ms ! j)) of
                   None \<Rightarrow>
                     spotPrice (params st)
                       * exp (interestRate (params st) / 100
                           * ((real (dayNumber (?ms ! j))
                                - real (dayNumber (startDate (params st)))) / 365))
                 | Some v \<Rightarrow>
                     if v \<noteq> 0 then v
                     else spotPrice (params st)
                       * exp (interestRate (params st) / 100
                           * ((real (dayNumber (?ms ! j))
                                - real (dayNumber (startDate (params st)))) / 365)))"
    unfolding n resultRow_Index_forward elapsed_years by (rule orElse_case)
  show "\<exists>rs. results (calculateResults_Index rnd st) = Some rs
            \<and> length rs = length ?ms
            \<and> forward (rs ! j) =
                (case manualForwards st (monthKey (?ms ! j)) of
                   None \<Rightarrow>
                     spotPrice (params st)
                       * exp (interestRate (params st) / 100
                           * ((real (dayNumber (?ms ! j))
                                - real (dayNumber (startDate (params st)))) / 365))
                 | Some v \<Rightarrow>
                     if v \<noteq> 0 then v
                     else spotPrice (params st)
                       * exp (interestRate (params st) / 100
                           * ((real (dayNumber (?ms ! j))
                                - real (dayNumber (startDate (params st)))) / 365)))"
    using r f by (intro exI [of _ ?rs]) simp
qed


theorem forward_price_resolution_witness:
  "strategy overrideState \<noteq> [] \<and> 2 < monthsToHedge (params overrideState)
   \<and> 0 < length (months_Index (params overrideState))
   \<and> (\<exists>rs. results (calculateResults sampleDraws overrideState) = Some rs
         \<and> forward (rs ! 2) = 105)
   \<and> (\<exists>rs. results (calculateResults_Index sampleDraws overrideState) = Some rs
         \<and> forward (rs ! 0) = 100 * exp (2 / 100 * (16 / 365)))"
proof -
  have h: "strategy overrideState \<noteq> []" "2 < monthsToHedge (params overrideState)"
    by (simp_all add: override_fields sampleParams_def)
  have h3: "0 < length (months_Index (params overrideState))"
    by (simp only: override_fields months_Index_sample)
  have s: "startDate (params overrideState) = sampleStart"
    by (simp add: override_fields sampleParams_def)
  have "manualForwards overrideState
      (monthKey (setMonth sampleStart (getMonth sampleStart + 2))) = Some 105"
    by (simp only: sample_row_keys override_fields) simp
  then have k: "manualForwards overrideState
      (monthKey (setMonth (startDate (params overrideState))
         (getMonth (startDate (params overrideState)) + 2))) = Some 105"
    by (simp only: s)
  have c: "manualForwards overrideState (monthKey (months_Index (params overrideState) ! 0)) = None"
    by (simp only: override_fields months_Index_sample monthKey_january_end) simp
  have e: "spotPrice (params overrideState)
      * exp (interestRate (params overrideState) / 100
          * ((real (dayNumber (months_Index (params overrideState) ! 0))
               - real (dayNumber (startDate (params overrideState)))) / 365))
      = 100 * exp (2 / 100 * (16 / 365))"
  proof -
    have "startDate (params overrideState) = sampleStart"
      "spotPrice (params overrideState) = 100" "interestRate (params overrideState) = 2"
      by (simp_all add: override_fields sampleParams_def)
    then show ?thesis
      by (simp only: override_fields months_Index_sample sample_elapsed_days)
  qed
  from forward_price_resolution [OF h h3, of sampleDraws]
  obtain rs rs' where
    a: "results (calculateResults sampleDraws overrideState) = Some rs"
      "\<forall>v. manualForwards overrideState
             (monthKey (setMonth (startDate (params overrideState))
                (getMonth (startDate (params overrideState)) + 2))) = Some v \<and> v \<noteq> 0
           \<longrightarrow> forward (rs ! 2) = v"
    and b: "results (calculateResults_Index sampleDraws overrideState) = Some rs'"
      "forward (rs' ! 0) =
         (case manualForwards overrideState (monthKey (months_Index (params overrideState) ! 0)) of
            None \<Rightarrow>
              spotPrice (params overrideState)
                * exp (interestRate (params overrideState) / 100
                    * ((real (dayNumber (months_Index (params overrideState) ! 0))
                         - real (dayNumber (startDate (params overrideState)))) / 365))
          | Some v \<Rightarrow>
              if v \<noteq> 0 then v
              else spotPrice (params overrideState)
                * exp (interestRate (params overrideState) / 100
                    * ((real (dayNumber (months_Index (params overrideState) ! 0))
                         - real (dayNumber (startDate (params overrideState)))) / 365)))"
    by blast
  have f2: "forward (rs ! 2) = 105"
    using a(2) k by simp
  have f0: "forward (rs' ! 0) = 100 * exp (2 / 100 * (16 / 365))"
    using b(2) by (simp only: c option.case e)
  show ?thesis
    using h h3 a(1) b(1) f2 f0 by blast
qed

text \<open>
  The claim as stated fails where the key is present with the value zero: the forward of
  period \<open>0\<close> is the spot price 100, not the override.
\<close>

theorem forward_zero_override_counterexample:
  "manualForwards zeroForwardState
     (monthKey (setMonth (startDate (params zeroForwardState))
        (getMonth (startDate (params zeroForwardState)) + 0))) = Some 0
   \<and> map_option (map forward) (results (calculateResults sampleDraws zeroForwardState))
       = Some [100, 100, 100]"
proof -
  have s: "startDate (params zeroForwardState) = sampleStart"
    by (simp add: zeroForward_fields sampleParams_def)
  have "manualForwards zeroForwardState
     (monthKey (setMonth sampleStart (getMonth sampleStart + 0))) = Some 0"
    by (simp only: sample_row_keys zeroForward_fields) simp
  then have k: "manualForwards zeroForwardState
     (monthKey (setMonth (startDate (params zeroForwardState))
        (getMonth (startDate (params zeroForwardState)) + 0))) = Some 0"
    by (simp only: s)
  have n: "strategy zeroForwardState \<noteq> []"
    by (simp add: zeroForward_fields)
  have "map_option (map forward) (results (calculateResults sampleDraws zeroForwardState))
       = Some [orElse (Some 0) 100, orElse None 100, orElse None 100]"
    by (simp only: sample_results [OF zeroForward_fields(1) n] option.map list.map
        sample_row_forward [OF zeroForward_fields(1)] zeroForward_fields) simp
  then show ?thesis
    using k by (simp add: orElse_def)
qed

subsection \<open>The forward curve of a scenario\<close>

lemma applyScenario_forwardBasis:
  assumes "forwardBasis K = Some b" and "b \<noteq> 0" and "realBasis K = None"
  shows "manualForwards (applyScenario rnd key K st)
    = forwardLoop (initialSpotPrice st * (1 + priceShock K)) b (monthsToHedge (params st)) 0
        (startDate (params st)) Map.empty"
  by (simp add: applyScenario_def Let_def assms)

lemma applyScenario_params:
  "params (applyScenario rnd key K st) = params st"
  "strategy (applyScenario rnd key K st) = strategy st"
  by (simp_all add: applyScenario_def Let_def split: option.splits prod.splits)

lemma applyScenario_results:
  "results (applyScenario rnd key K st) = results (calculateResults rnd st)"
  by (simp add: applyScenario_def Let_def split: option.splits prod.splits)

lemma sample_forward_steps:
  "setMonth sampleStart (getMonth sampleStart + 1)
     = \<lparr>getFullYear = 2024, getMonth = 1, getDate = 15\<rparr>"
  "setMonth \<lparr>getFullYear = 2024, getMonth = 1, getDate = 15\<rparr>
       (getMonth \<lparr>getFullYear = 2024, getMonth = 1, getDate = 15\<rparr> + 1)
     = \<lparr>getFullYear = 2024, getMonth = 2, getDate = 15\<rparr>"
  "setMonth \<lparr>getFullYear = 2024, getMonth = 2, getDate = 15\<rparr>
       (getMonth \<lparr>getFullYear = 2024, getMonth = 2, getDate = 15\<rparr> + 1)
     = \<lparr>getFullYear = 2024, getMonth = 3, getDate = 15\<rparr>"
  by (simp_all add: setMonth_def sampleStart_def daysInMonth_def isLeap_def Let_def)

lemma sample_forward_keys:
  "monthKey \<lparr>getFullYear = 2024, getMonth = 1, getDate = 15\<rparr> = ''2024-2''"
  "monthKey \<lparr>getFullYear = 2024, getMonth = 2, getDate = 15\<rparr> = ''2024-3''"
  "monthKey \<lparr>getFullYear = 2024, getMonth = 3, getDate = 15\<rparr> = ''2024-4''"
  by (simp_all add: monthKey_def showNat.simps digitChar_def)

lemma forwardLoop_sample:
  "forwardLoop 100 (1 / 100) (Suc (Suc (Suc 0))) 0 sampleStart Map.empty
     = [''2024-2'' \<mapsto> 100, ''2024-3'' \<mapsto> 100 * exp (1 / 100),
        ''2024-4'' \<mapsto> 100 * exp (1 / 50)]"
  apply (simp only: forwardLoop.simps Let_def sample_forward_steps sample_forward_keys)
  apply simp
  done

lemma contango_manualForwards:
  "manualForwards (applyScenario rnd ''contango'' contangoScenario sampleState) =
     [''2024-2'' \<mapsto> 100, ''2024-3'' \<mapsto> 100 * exp (1 / 100),
      ''2024-4'' \<mapsto> 100 * exp (1 / 50)]"
proof -
  have f: "forwardBasis contangoScenario = Some (1 / 100)" "realBasis contangoScenario = None"
    by (simp_all add: contangoScenario_def)
  have p: "monthsToHedge (params sampleState) = Suc (Suc (Suc 0))"
    "startDate (params sampleState) = sampleStart"
    "initialSpotPrice sampleState * (1 + priceShock contangoScenario) = 100"
    by (simp_all add: sampleState_def sampleParams_def contangoScenario_def)
  show ?thesis
    by (simp only: applyScenario_forwardBasis [OF f(1) _ f(2)] p forwardLoop_sample)
qed

lemma daysInMonth_ge_28: "28 \<le> daysInMonth y m"
  by (simp add: daysInMonth_def)

lemma setMonth_no_spill:
  assumes "getDate d \<le> 28"
  shows "setMonth d m
    = \<lparr>getFullYear = getFullYear d + m div 12, getMonth = m mod 12, getDate = getDate d\<rparr>"
proof -
  have "getDate d \<le> daysInMonth (getFullYear d + m div 12) (m mod 12)"
    using assms daysInMonth_ge_28 [of "getFullYear d + m div 12" "m mod 12"] by linarith
  then show ?thesis
    by (simp add: setMonth_def Let_def)
qed

lemma addMonths_0: "getMonth d < 12 \<Longrightarrow> addMonths d 0 = d"
  by (simp add: addMonths_def)

lemma setMonth_period:
  "getDate d \<le> 28 \<Longrightarrow> setMonth d (getMonth d + i) = addMonths d i"
  by (simp add: setMonth_no_spill addMonths_def)

lemma div_mod_step:
  fixes a :: nat
  shows "a div 12 + (a mod 12 + 1) div 12 = (a + 1) div 12"
    and "(a mod 12 + 1) mod 12 = (a + 1) mod 12"
proof -
  have lt: "a mod 12 < 12"
    by simp
  show "(a mod 12 + 1) mod 12 = (a + 1) mod 12"
    by (simp add: mod_Suc)
  show "a div 12 + (a mod 12 + 1) div 12 = (a + 1) div 12"
  proof (cases "a mod 12 = 11")
    case True
    then show ?thesis
      by (simp add: div_Suc mod_Suc)
  next
    case False
    then have "a mod 12 + 1 < 12"
      using lt by linarith
    then show ?thesis
      using False by (simp add: div_Suc mod_Suc)
  qed
qed

lemma setMonth_addMonths:
  assumes "getDate d \<le> 28"
  shows "setMonth (addMonths d j) (getMonth (addMonths d j) + 1) = addMonths d (j + 1)"
proof -
  have "getDate (addMonths d j) \<le> 28"
    using assms by (simp add: addMonths_def)
  then have "setMonth (addMonths d j) (getMonth (addMonths d j) + 1)
     = \<lparr>getFullYear = getFullYear (addMonths d j) + (getMonth (addMonths d j) + 1) div 12,
        getMonth = (getMonth (addMonths d j) + 1) mod 12, getDate = getDate (addMonths d j)\<rparr>"
    by (rule setMonth_no_spill)
  also have "\<dots> = addMonths d (j + 1)"
    using div_mod_step [of "getMonth d + j"] by (simp add: addMonths_def add.assoc)
  finally show ?thesis .
qed

lemma showNat_nonempty: "showNat n \<noteq> []"
  by (subst showNat.simps) simp

lemma digitChar_inj: "a < 10 \<Longrightarrow> b < 10 \<Longrightarrow> digitChar a = digitChar b \<Longrightarrow> a = b"
  unfolding digitChar_def
  by (subst (asm) nth_eq_iff_index_eq) simp_all

lemma showNat_inj: "showNat n = showNat m \<Longrightarrow> n = m"
proof (induction n arbitrary: m rule: showNat.induct)
  case (1 n)
  show ?case
  proof (cases "n < 10")
    case True
    then have n: "showNat n = [digitChar n]"
      by (subst showNat.simps) simp
    show ?thesis
    proof (cases "m < 10")
      case True
      then have "showNat m = [digitChar m]"
        by (subst showNat.simps) simp
      then show ?thesis
        using "1.prems" n \<open>n < 10\<close> True digitChar_inj by simp
    next
      case False
      then have "showNat m = showNat (m div 10) @ [digitChar (m mod 10)]"
        by (subst showNat.simps) simp
      then show ?thesis
        using "1.prems" n showNat_nonempty [of "m div 10"] by simp
    qed
  next
    case False
    then have n: "showNat n = showNat (n div 10) @ [digitChar (n mod 10)]"
      by (subst showNat.simps) simp
    show ?thesis
    proof (cases "m < 10")
      case True
      then have "showNat m = [digitChar m]"
        by (subst showNat.simps) simp
      then show ?thesis
        using "1.prems" n showNat_nonempty [of "n div 10"] by simp
    next
      case m: False
      then have "showNat m = showNat (m div 10) @ [digitChar (m mod 10)]"
        by (subst showNat.simps) simp
      then have e: "showNat (n div 10) = showNat (m div 10)"
        "digitChar (n mod 10) = digitChar (m mod 10)"
        using "1.prems" n by simp_all
      have "n div 10 = m div 10"
        using "1.IH" [OF False e(1)] .
      moreover have "n mod 10 = m mod 10"
        using e(2) by (intro digitChar_inj) simp_all
      ultimately show ?thesis
        by (metis div_mult_mod_eq)
    qed
  qed
qed

lemma monthKey_inj:
  assumes "monthKey d = monthKey d'"
  shows "getFullYear d = getFullYear d' \<and> getMonth d = getMonth d'"
proof -
  have m: "CHR ''-'' \<notin> set (showNat n)" for n
    by (rule notin_showNat) simp
  have "showNat (getFullYear d) @ CHR ''-'' # showNat (getMonth d + 1)
      = showNat (getFullYear d') @ CHR ''-'' # showNat (getMonth d' + 1)"
    using assms by (simp add: monthKey_def)
  then have "showNat (getFullYear d) = showNat (getFullYear d')
      \<and> showNat (getMonth d + 1) = showNat (getMonth d' + 1)"
    using m by (subst (asm) append_Cons_eq_iff) simp_all
  then show ?thesis
    using showNat_inj by fastforce
qed

text \<open>
  Every month key holds a hyphen and no name of a member of \<^verbatim>\<open>Object.prototype\<close>
  does, so a read with a month key finds an own property or nothing.
\<close>

lemma objectPrototypeNames_no_hyphen:
  "\<forall>k \<in> set objectPrototypeNames. CHR ''-'' \<notin> set k"
  by (simp add: objectPrototypeNames_def)

lemma monthKey_not_inherited: "monthKey d \<notin> set objectPrototypeNames"
proof
  assume "monthKey d \<in> set objectPrototypeNames"
  with objectPrototypeNames_no_hyphen have "CHR ''-'' \<notin> set (monthKey d)"
    by (rule bspec)
  moreover have "CHR ''-'' \<in> set (monthKey d)"
    by (simp add: monthKey_def)
  ultimately show False
    by simp
qed

lemma readProperty_monthKey:
  "readProperty obj (monthKey d)
     = (case obj (monthKey d) of Some v \<Rightarrow> OwnProperty v | None \<Rightarrow> UndefinedValue)"
  by (simp add: readProperty_def monthKey_not_inherited)

lemma monthKey_addMonths_inj:
  assumes "monthKey (addMonths d j) = monthKey (addMonths d k)"
  shows "j = k"
proof -
  have "(getMonth d + j) div 12 = (getMonth d + k) div 12"
    "(getMonth d + j) mod 12 = (getMonth d + k) mod 12"
    using monthKey_inj [OF assms] by (simp_all add: addMonths_def)
  then have "getMonth d + j = getMonth d + k"
    by (metis div_mult_mod_eq)
  then show ?thesis
    by simp
qed


lemma forwardLoop_other:
  assumes "getDate d \<le> 28"
    and "\<forall>t<k. key \<noteq> monthKey (addMonths d (j + t + 1))"
  shows "forwardLoop s b k i (addMonths d j) mf key = mf key"
  using assms(2)
proof (induction k arbitrary: i j mf)
  case 0
  then show ?case by simp
next
  case (Suc k)
  have n: "key \<noteq> monthKey (addMonths d (j + 1))"
    using Suc.prems by (metis add.right_neutral zero_less_Suc)
  have r: "\<forall>t<k. key \<noteq> monthKey (addMonths d (j + 1 + t + 1))"
  proof (intro allI impI)
    fix t
    assume "t < k"
    then have "key \<noteq> monthKey (addMonths d (j + Suc t + 1))"
      using Suc.prems by (metis Suc_less_eq)
    then show "key \<noteq> monthKey (addMonths d (j + 1 + t + 1))"
      by (simp add: add.commute add.left_commute)
  qed
  show ?case
    by (simp add: Let_def setMonth_addMonths [OF assms(1)] Suc.IH [OF r] n
        del: One_nat_def)
qed

lemma forwardLoop_at:
  assumes "getDate d \<le> 28" and "t < k"
  shows "forwardLoop s b k i (addMonths d j) mf (monthKey (addMonths d (j + t + 1)))
     = Some (s * exp (b * (real (i + t) / 12) * 12))"
  using assms(2)
proof (induction k arbitrary: i j mf t)
  case 0
  then show ?case by simp
next
  case (Suc k)
  show ?case
  proof (cases t)
    case 0
    have o: "\<forall>u<k. monthKey (addMonths d (j + 1)) \<noteq> monthKey (addMonths d (j + 1 + u + 1))"
    proof (intro allI impI notI)
      fix u
      assume "monthKey (addMonths d (j + 1)) = monthKey (addMonths d (j + 1 + u + 1))"
      then have "j + 1 = j + 1 + u + 1"
        by (rule monthKey_addMonths_inj)
      then show False
        by simp
    qed
    show ?thesis
      using 0
      by (simp add: Let_def setMonth_addMonths [OF assms(1)]
          forwardLoop_other [OF assms(1) o] del: One_nat_def)
  next
    case (Suc u)
    then have u: "u < k"
      using Suc.prems by simp
    have "forwardLoop s b k (Suc i) (addMonths d (j + 1))
            (mf(monthKey (addMonths d (j + 1)) \<mapsto> s * exp (b * (real i / 12) * 12)))
            (monthKey (addMonths d (j + 1 + u + 1)))
        = Some (s * exp (b * (real (Suc i + u) / 12) * 12))"
      using u by (rule Suc.IH)
    moreover have "j + 1 + u + 1 = j + t + 1" "Suc i + u = i + t"
      using Suc by simp_all
    ultimately show ?thesis
      by (simp add: Let_def setMonth_addMonths [OF assms(1)] del: One_nat_def)
  qed
qed


text \<open>
  Claim C2, evaluated on the code. Take a scenario of the catalog with a forward basis
  \<open>b\<close> other than zero and no real basis, a start date up to the 28th of its month, a
  strategy with a leg and a stressed spot other than zero. Applying it leaves the state
  that the body of the handler computes. The loop of \<^verbatim>\<open>applyStressTest\<close> advances the
  date before it forms the key, so the forward of iteration \<open>i\<close>, the stressed spot times
  \<open>e\<^sup>b\<^sup>i\<close>, is stored under the month \<open>i + 1\<close> months after the start. In the
  projection that follows, period \<open>0\<close> has no override and takes the spot price of the
  parameters, and period \<open>i + 1\<close> takes the stressed spot times \<open>e\<^sup>b\<^sup>i\<close>: every
  forward is one month late against the claimed \<open>e\<^sup>b\<^sup>i\<close> for period \<open>i\<close>.
\<close>

theorem forward_curve_one_month_late:
  assumes "stressTestScenarios st key = Some K" and "forwardBasis K = Some b" and "b \<noteq> 0"
    and "realBasis K = None"
    and "validDate (startDate (params st))" and "getDate (startDate (params st)) \<le> 28"
    and "strategy st \<noteq> []"
    and "initialSpotPrice st * (1 + priceShock K) \<noteq> 0"
  shows "applyStressTest rnd key st = Typed (applyScenario rnd key K st)
   \<and> (\<exists>rs. results (calculateResults rnd' (applyScenario rnd key K st)) = Some rs
     \<and> length rs = monthsToHedge (params st)
     \<and> (0 < monthsToHedge (params st) \<longrightarrow> forward (rs ! 0) = spotPrice (params st))
     \<and> (\<forall>i. i + 1 < monthsToHedge (params st)
            \<longrightarrow> forward (rs ! (i + 1))
                = initialSpotPrice st * (1 + priceShock K) * exp (b * real i)))"
proof -
  let ?st = "applyScenario rnd key K st"
  let ?d = "startDate (params st)"
  let ?n = "monthsToHedge (params st)"
  let ?s = "initialSpotPrice st * (1 + priceShock K)"
  let ?rs = "map (resultRow rnd' ?st) [0..<?n]"
  have p: "params ?st = params st" "strategy ?st = strategy st"
    by (rule applyScenario_params)+
  have m: "getMonth ?d < 12"
    using assms(5) by (simp add: validDate_def)
  have mf: "manualForwards ?st = forwardLoop ?s b ?n 0 (addMonths ?d 0) Map.empty"
    using applyScenario_forwardBasis [OF assms(2-4), of rnd key st] by (simp only: addMonths_0 [OF m])
  have "strategy ?st \<noteq> []"
    unfolding p(2) by (rule assms(7))
  then have "results (calculateResults rnd' ?st)
      = Some (map (resultRow rnd' ?st) [0..<monthsToHedge (params ?st)])"
    by (rule results_calculateResults)
  then have r: "results (calculateResults rnd' ?st) = Some ?rs"
    by (simp only: p)
  have f: "forward (resultRow rnd' ?st i)
      = orElse (forwardLoop ?s b ?n 0 (addMonths ?d 0) Map.empty (monthKey (addMonths ?d i)))
          (spotPrice (params st))" for i
    by (simp only: resultRow_forward p mf setMonth_period [OF assms(6)])
  have z: "forward (?rs ! 0) = spotPrice (params st)" if "0 < ?n"
  proof -
    have "\<forall>t<?n. monthKey (addMonths ?d 0) \<noteq> monthKey (addMonths ?d (0 + t + 1))"
    proof (intro allI impI notI)
      fix t
      assume "monthKey (addMonths ?d 0) = monthKey (addMonths ?d (0 + t + 1))"
      then have "0 = 0 + t + 1"
        by (rule monthKey_addMonths_inj)
      then show False
        by simp
    qed
    then have "forwardLoop ?s b ?n 0 (addMonths ?d 0) Map.empty (monthKey (addMonths ?d 0)) = None"
      by (simp only: forwardLoop_other [OF assms(6)])
    then have "forward (resultRow rnd' ?st 0) = spotPrice (params st)"
      by (simp only: f) (simp add: orElse_def)
    then show ?thesis
      using that by simp
  qed
  have s: "forward (?rs ! (i + 1)) = ?s * exp (b * real i)" if "i + 1 < ?n" for i
  proof -
    have "i < ?n"
      using that by simp
    then have "forwardLoop ?s b ?n 0 (addMonths ?d 0) Map.empty
        (monthKey (addMonths ?d (0 + i + 1))) = Some (?s * exp (b * (real (0 + i) / 12) * 12))"
      by (rule forwardLoop_at [OF assms(6)])
    then have "forwardLoop ?s b ?n 0 (addMonths ?d 0) Map.empty (monthKey (addMonths ?d (i + 1)))
        = Some (?s * exp (b * real i))"
      by simp
    then have "forward (resultRow rnd' ?st (i + 1)) = ?s * exp (b * real i)"
      using assms(8) by (simp only: f) (simp add: orElse_def)
    then show ?thesis
      using that by simp
  qed
  have t: "applyStressTest rnd key st = Typed ?st"
    using assms(1) by (rule applyStressTest_own)
  have e: "\<exists>rs. results (calculateResults rnd' ?st) = Some rs
     \<and> length rs = ?n
     \<and> (0 < ?n \<longrightarrow> forward (rs ! 0) = spotPrice (params st))
     \<and> (\<forall>i. i + 1 < ?n \<longrightarrow> forward (rs ! (i + 1)) = ?s * exp (b * real i))"
    using r z s by (intro exI [of _ ?rs]) simp
  show ?thesis
    using t e by (rule conjI)
qed


theorem forward_curve_one_month_late_witness:
  "stressTestScenarios sampleState ''contango'' = Some contangoScenario
   \<and> forwardBasis contangoScenario = Some (1 / 100) \<and> (1 / 100 :: real) \<noteq> 0
   \<and> realBasis contangoScenario = None
   \<and> validDate (startDate (params sampleState))
   \<and> getDate (startDate (params sampleState)) \<le> 28
   \<and> strategy sampleState \<noteq> []
   \<and> initialSpotPrice sampleState * (1 + priceShock contangoScenario) \<noteq> 0
   \<and> applyStressTest sampleDraws ''contango'' sampleState
       = Typed (applyScenario sampleDraws ''contango'' contangoScenario sampleState)
   \<and> (\<exists>rs. results (calculateResults sampleDraws
                        (applyScenario sampleDraws ''contango'' contangoScenario sampleState))
              = Some rs
         \<and> length rs = 3
         \<and> forward (rs ! 0) = 100 \<and> forward (rs ! 1) = 100
         \<and> forward (rs ! 2) = 100 * exp (1 / 100)
         \<and> forward (rs ! 1) \<noteq> 100 * exp (1 / 100 * 1))"
proof -
  have k: "stressTestScenarios sampleState ''contango'' = Some contangoScenario"
    by (simp add: sampleState_def defaultScenarios_contango)
  have b: "forwardBasis contangoScenario = Some (1 / 100)" "(1 / 100 :: real) \<noteq> 0"
    "realBasis contangoScenario = None"
    by (simp_all add: contangoScenario_def)
  have d: "validDate (startDate (params sampleState))"
    "getDate (startDate (params sampleState)) \<le> 28"
  proof -
    show "validDate (startDate (params sampleState))"
      by (simp add: sample_fields sampleParams_def validDate_sampleStart)
    show "getDate (startDate (params sampleState)) \<le> 28"
      by (simp add: sample_fields sampleParams_def sampleStart_def)
  qed
  have s: "strategy sampleState \<noteq> []"
    by (simp add: sample_fields)
  have v: "initialSpotPrice sampleState * (1 + priceShock contangoScenario) = 100"
    "spotPrice (params sampleState) = 100" "monthsToHedge (params sampleState) = 3"
    by (simp_all add: sampleState_def sampleParams_def contangoScenario_def)
  have nz: "initialSpotPrice sampleState * (1 + priceShock contangoScenario) \<noteq> 0"
    by (simp add: v)
  note fc = forward_curve_one_month_late [OF k b d s nz, of sampleDraws sampleDraws]
  note ty = fc [THEN conjunct1]
  from fc [THEN conjunct2]
  obtain rs where all:
    "results (calculateResults sampleDraws
                (applyScenario sampleDraws ''contango'' contangoScenario sampleState))
       = Some rs
     \<and> length rs = monthsToHedge (params sampleState)
     \<and> (0 < monthsToHedge (params sampleState)
          \<longrightarrow> forward (rs ! 0) = spotPrice (params sampleState))
     \<and> (\<forall>i. i + 1 < monthsToHedge (params sampleState)
            \<longrightarrow> forward (rs ! (i + 1))
                = initialSpotPrice sampleState * (1 + priceShock contangoScenario)
                    * exp (1 / 100 * real i))" ..
  note r = all [THEN conjunct1]
  have len: "length rs = 3"
    using all [THEN conjunct2, THEN conjunct1] by (simp only: v)
  have f0: "forward (rs ! 0) = 100"
    using all [THEN conjunct2, THEN conjunct2, THEN conjunct1] by (simp add: v)
  note step = all [THEN conjunct2, THEN conjunct2, THEN conjunct2, unfolded v, rule_format]
  have f1: "forward (rs ! 1) = 100"
    using step [of 0] by simp
  have f2: "forward (rs ! 2) = 100 * exp (1 / 100)"
    using step [of 1] by (simp add: numeral_2_eq_2)
  have f1': "forward (rs ! 1) \<noteq> 100 * exp (1 / 100 * 1)"
    unfolding f1 by simp
  show ?thesis
    apply (intro conjI exI [of _ rs])
                 apply (rule k)
                apply (rule b(1))
               apply (rule b(2))
              apply (rule b(3))
             apply (rule d(1))
            apply (rule d(2))
           apply (rule s)
          apply (rule nz)
         apply (rule ty)
         apply (rule r)
        apply (rule len)
       apply (rule f0)
      apply (rule f1)
     apply (rule f2)
    apply (rule f1')
    done
qed

text \<open>
  On the sample state the contango scenario (basis 0.01, no shock, spot 100, three
  months) stores \<open>100\<close>, \<open>100 e\<^sup>0\<^sup>.\<^sup>0\<^sup>1\<close> and \<open>100 e\<^sup>0\<^sup>.\<^sup>0\<^sup>2\<close> under February,
  March and April, and the projection reads \<open>100\<close>, \<open>100\<close> and \<open>100 e\<^sup>0\<^sup>.\<^sup>0\<^sup>1\<close>.
\<close>

lemma contango_forwards:
  "manualForwards (applyScenario sampleDraws ''contango'' contangoScenario sampleState)
     = [''2024-2'' \<mapsto> 100, ''2024-3'' \<mapsto> 100 * exp (1 / 100),
        ''2024-4'' \<mapsto> 100 * exp (1 / 50)]
   \<and> map_option (map forward)
        (results (calculateResults sampleDraws
                    (applyScenario sampleDraws ''contango'' contangoScenario sampleState)))
     = Some [100, 100, 100 * exp (1 / 100)]"
proof -
  let ?st = "applyScenario sampleDraws ''contango'' contangoScenario sampleState"
  have p: "params ?st = sampleParams"
    by (simp only: applyScenario_params sample_fields)
  have n: "strategy ?st \<noteq> []"
    by (simp only: applyScenario_params sample_fields) simp
  have "map_option (map forward) (results (calculateResults sampleDraws ?st))
      = Some [orElse (manualForwards ?st ''2024-1'') 100,
              orElse (manualForwards ?st ''2024-2'') 100,
              orElse (manualForwards ?st ''2024-3'') 100]"
    by (simp only: sample_results [OF p n] option.map list.map sample_row_forward [OF p])
  then have "map_option (map forward) (results (calculateResults sampleDraws ?st))
      = Some [100, 100, 100 * exp (1 / 100)]"
    by (simp add: contango_manualForwards orElse_def)
  then show ?thesis
    using contango_manualForwards by blast
qed

lemma contango_forwards_not_claimed:
  "map_option (map forward)
        (results (calculateResults sampleDraws
                    (applyScenario sampleDraws ''contango'' contangoScenario sampleState)))
     \<noteq> Some [100 * exp (1 / 100 * 0), 100 * exp (1 / 100 * 1), 100 * exp (1 / 100 * 2)]"
  using contango_forwards by auto

text \<open>
  The rows that \<^verbatim>\<open>applyStressTest\<close> itself stores come from the state before the
  scenario, where no forward is overridden.
\<close>

lemma contango_stored_results:
  "map_option (map forward)
     (results (applyScenario sampleDraws ''contango'' contangoScenario sampleState))
     = Some [100, 100, 100]"
proof -
  have n: "strategy sampleState \<noteq> []"
    by (simp add: sample_fields)
  have "map_option (map forward) (results (calculateResults sampleDraws sampleState))
      = Some [orElse None 100, orElse None 100, orElse None 100]"
    by (simp only: sample_results [OF sample_fields(1) n] option.map list.map
        sample_row_forward [OF sample_fields(1)] sample_fields)
  then show ?thesis
    by (simp add: applyScenario_results orElse_def)
qed

text \<open>
  So do the rows that the handler stores for the inherited key \<^verbatim>\<open>constructor\<close>, where
  the sample state had no rows.
\<close>

lemma constructor_stored_results:
  "\<exists>st'. applyStressTest sampleDraws ''constructor'' sampleState = UndefinedParams st'
     \<and> map_option (map forward) (results st') = Some [100, 100, 100]
     \<and> results sampleState = None"
proof -
  have C: "stressTestScenarios sampleState ''constructor'' = None"
    by (simp add: sampleState_def defaultScenarios_constructor)
  have n: "strategy sampleState \<noteq> []"
    by (simp add: sample_fields)
  have "map_option (map forward) (results (calculateResults sampleDraws sampleState))
      = Some [orElse None 100, orElse None 100, orElse None 100]"
    by (simp only: sample_results [OF sample_fields(1) n] option.map list.map
        sample_row_forward [OF sample_fields(1)] sample_fields)
  then have r: "map_option (map forward) (results (calculateResults sampleDraws sampleState))
      = Some [100, 100, 100]"
    by (simp add: orElse_def)
  have z: "results sampleState = None"
    by (simp add: sampleState_def)
  show ?thesis
    unfolding applyStressTest_inherited [OF C constructor_inherited]
    using r z by simp
qed

subsection \<open>Yearly sums\<close>

lemma yearlyStep_Saved_eq: "yearlyStep_Saved acc row = yearlyStep acc row"
  by (simp add: yearlyStep_Saved_def yearlyStep_def isValidResult_def Let_def)

lemma dom_yearlyStep_Saved:
  "dom (yearlyStep_Saved acc row) = insert (propertyKey (rowYear row)) (dom acc)"
  by (simp only: yearlyStep_Saved_eq dom_yearlyStep)

lemma dom_foldl_yearlyStep_Saved:
  "dom (foldl yearlyStep_Saved acc rs) = dom acc \<union> (\<lambda>r. propertyKey (rowYear r)) ` set rs"
  by (induction rs arbitrary: acc) (simp_all add: dom_yearlyStep_Saved)

lemma dom_calculateYearlyResults_Saved:
  "dom (calculateYearlyResults_Saved rs) = (\<lambda>r. propertyKey (rowYear r)) ` set rs"
  by (simp add: calculateYearlyResults_Saved_def dom_foldl_yearlyStep_Saved)

lemma yearlyStep_at_key:
  "yearlyStep acc row (propertyKey (rowYear row))
     = Some (addRow (case acc (propertyKey (rowYear row)) of None \<Rightarrow> zeroYear | Some y \<Rightarrow> y) row)"
  by (simp add: yearlyStep_def Let_def isValidResult_def addRow_def zeroYear_def
      split: option.splits)

lemma foldl_yearlyStep_one_key:
  assumes "\<forall>r\<in>set rs. propertyKey (rowYear r) = k"
  shows "foldl yearlyStep acc rs k
     = (if rs = [] then acc k
        else Some (foldl addRow (case acc k of None \<Rightarrow> zeroYear | Some y \<Rightarrow> y) rs))"
  using assms
proof (induction rs arbitrary: acc)
  case Nil
  then show ?case by simp
next
  case (Cons r rs)
  have k: "propertyKey (rowYear r) = k"
    using Cons.prems by simp
  have s: "yearlyStep acc r k
     = Some (addRow (case acc k of None \<Rightarrow> zeroYear | Some y \<Rightarrow> y) r)"
    using yearlyStep_at_key [of acc r] by (simp only: k)
  have "foldl yearlyStep (yearlyStep acc r) rs k
     = (if rs = [] then yearlyStep acc r k
        else Some (foldl addRow (case yearlyStep acc r k of None \<Rightarrow> zeroYear | Some y \<Rightarrow> y) rs))"
    using Cons.prems by (intro Cons.IH) simp
  then show ?case
    by (simp add: s)
qed

lemma foldl_addRow:
  "foldl addRow y rs = \<lparr>y_hedgedCost = y_hedgedCost y + (\<Sum>r\<leftarrow>rs. hedgedCost r),
     y_unhedgedCost = y_unhedgedCost y + (\<Sum>r\<leftarrow>rs. unhedgedCost r),
     y_deltaPnL = y_deltaPnL y + (\<Sum>r\<leftarrow>rs. deltaPnL r)\<rparr>"
  by (induction rs arbitrary: y) (simp_all add: addRow_def add.assoc)

lemma image_one_value: "S \<noteq> {} \<Longrightarrow> \<forall>x\<in>S. f x = c \<Longrightarrow> f ` S = {c}"
  by auto

lemma showNat_sample:
  "showNat 2024 = ''2024''" "showNat 1 = ''1''" "showNat 2 = ''2''" "showNat 3 = ''3''"
  "showNat 15 = ''15''" "showNat (Suc 0) = ''1''" "showNat (Suc (Suc 0)) = ''2''"
  by (simp_all add: showNat.simps digitChar_def)

lemma padZero_sample:
  "padZero 4 2024 = ''2024''" "padZero 2 1 = ''01''" "padZero 2 2 = ''02''"
  "padZero 2 3 = ''03''" "padZero 2 15 = ''15''"
  "padZero 2 (Suc 0) = ''01''" "padZero 2 (Suc (Suc 0)) = ''02''"
  by (simp_all add: padZero_def showNat_sample)

lemma sample_row_dates_aux:
  "setMonth sampleStart (getMonth sampleStart + 0) = \<lparr>getFullYear = 2024, getMonth = 0, getDate = 15\<rparr>"
  "setMonth sampleStart (getMonth sampleStart + 1) = \<lparr>getFullYear = 2024, getMonth = 1, getDate = 15\<rparr>"
  "setMonth sampleStart (getMonth sampleStart + 2) = \<lparr>getFullYear = 2024, getMonth = 2, getDate = 15\<rparr>"
  by (simp_all add: setMonth_def sampleStart_def daysInMonth_def isLeap_def Let_def)

lemma isoDatePart_sample:
  "isoDatePart \<lparr>getFullYear = 2024, getMonth = 0, getDate = 15\<rparr> = ''2024-01-15''"
  "isoDatePart \<lparr>getFullYear = 2024, getMonth = 1, getDate = 15\<rparr> = ''2024-02-15''"
  "isoDatePart \<lparr>getFullYear = 2024, getMonth = 2, getDate = 15\<rparr> = ''2024-03-15''"
  by (simp_all add: isoDatePart_def padZero_sample)


text \<open>
  Claim C9, evaluated on the code. The projector of \<^verbatim>\<open>part_001\<close> writes the date of
  a row as \<^verbatim>\<open>date.toISOString().split('T')[0]\<close>, a string such as
  \<^verbatim>\<open>2024-01-15\<close> with no space in it, and both \<^verbatim>\<open>calculateYearlyResults\<close> take the
  year from \<^verbatim>\<open>row.date.split(' ')[1]\<close>. For every strategy with a leg and every horizon
  of at least one month the year of each row is therefore undefined, and the yearly sums
  have the single key \<^verbatim>\<open>undefined\<close>, which holds the sums over all periods whatever
  their calendar year.
\<close>

theorem yearly_results_one_key:
  assumes "strategy st \<noteq> []" and "0 < monthsToHedge (params st)"
  shows "\<exists>rs. results (calculateResults rnd st) = Some rs
     \<and> (\<forall>r\<in>set rs. rowYear r = None)
     \<and> dom (calculateYearlyResults rs) = {''undefined''}
     \<and> dom (calculateYearlyResults_Saved rs) = {''undefined''}
     \<and> calculateYearlyResults rs ''undefined''
         = Some \<lparr>y_hedgedCost = (\<Sum>r\<leftarrow>rs. hedgedCost r),
                 y_unhedgedCost = (\<Sum>r\<leftarrow>rs. unhedgedCost r),
                 y_deltaPnL = (\<Sum>r\<leftarrow>rs. deltaPnL r)\<rparr>"
proof -
  let ?rs = "map (resultRow rnd st) [0..<monthsToHedge (params st)]"
  have r: "results (calculateResults rnd st) = Some ?rs"
    using assms(1) by (rule results_calculateResults)
  have y: "\<forall>r\<in>set ?rs. rowYear r = None"
    by (simp add: rowYear_resultRow)
  then have k: "\<forall>r\<in>set ?rs. propertyKey (rowYear r) = ''undefined''"
    by (simp add: propertyKey_def)
  have ne: "?rs \<noteq> []"
    using assms(2) by simp
  then have "set ?rs \<noteq> {}"
    by (simp only: set_empty not_False_eq_True)
  then have i: "(\<lambda>r. propertyKey (rowYear r)) ` set ?rs = {''undefined''}"
    using k by (rule image_one_value)
  have d: "dom (calculateYearlyResults ?rs) = {''undefined''}"
    by (simp only: dom_calculateYearlyResults i)
  have d': "dom (calculateYearlyResults_Saved ?rs) = {''undefined''}"
    by (simp only: dom_calculateYearlyResults_Saved i)
  have "calculateYearlyResults ?rs ''undefined'' = Some (foldl addRow zeroYear ?rs)"
    unfolding calculateYearlyResults_def foldl_yearlyStep_one_key [OF k] using ne by simp
  then have v: "calculateYearlyResults ?rs ''undefined''
         = Some \<lparr>y_hedgedCost = (\<Sum>r\<leftarrow>?rs. hedgedCost r),
                 y_unhedgedCost = (\<Sum>r\<leftarrow>?rs. unhedgedCost r),
                 y_deltaPnL = (\<Sum>r\<leftarrow>?rs. deltaPnL r)\<rparr>"
    by (simp add: foldl_addRow zeroYear_def)
  show ?thesis
    using r y d d' v by (intro exI [of _ ?rs]) blast
qed


theorem yearly_results_one_key_witness:
  "strategy sampleState \<noteq> [] \<and> 0 < monthsToHedge (params sampleState)
   \<and> (\<exists>rs. results (calculateResults sampleDraws sampleState) = Some rs
         \<and> map date rs = [''2024-01-15'', ''2024-02-15'', ''2024-03-15'']
         \<and> map rowYear rs = [None, None, None]
         \<and> dom (calculateYearlyResults rs) = {''undefined''}
         \<and> calculateYearlyResults rs ''2024'' = None)"
proof -
  have h: "strategy sampleState \<noteq> []" "0 < monthsToHedge (params sampleState)"
    by (simp_all add: sample_fields sampleParams_def)
  from yearly_results_one_key [OF h, of sampleDraws]
  obtain rs where all: "results (calculateResults sampleDraws sampleState) = Some rs
     \<and> (\<forall>r\<in>set rs. rowYear r = None)
     \<and> dom (calculateYearlyResults rs) = {''undefined''}
     \<and> dom (calculateYearlyResults_Saved rs) = {''undefined''}
     \<and> calculateYearlyResults rs ''undefined''
         = Some \<lparr>y_hedgedCost = (\<Sum>r\<leftarrow>rs. hedgedCost r),
                 y_unhedgedCost = (\<Sum>r\<leftarrow>rs. unhedgedCost r),
                 y_deltaPnL = (\<Sum>r\<leftarrow>rs. deltaPnL r)\<rparr>" ..
  note rs = all [THEN conjunct1] all [THEN conjunct2, THEN conjunct1]
    all [THEN conjunct2, THEN conjunct2, THEN conjunct1]
  have "Some rs = Some [resultRow sampleDraws sampleState 0, resultRow sampleDraws sampleState 1,
      resultRow sampleDraws sampleState 2]"
    using rs(1) sample_results [OF sample_fields(1) h(1), of sampleDraws] by (rule trans [OF sym])
  then have e: "rs = [resultRow sampleDraws sampleState 0, resultRow sampleDraws sampleState 1,
      resultRow sampleDraws sampleState 2]"
    by (simp only: option.inject)
  have s: "startDate (params sampleState) = sampleStart"
    by (simp add: sample_fields sampleParams_def)
  have d: "map date rs = [''2024-01-15'', ''2024-02-15'', ''2024-03-15'']"
    by (simp only: e list.map date_resultRow s sample_row_dates_aux isoDatePart_sample)
  have y: "map rowYear rs = [None, None, None]"
    by (simp only: e list.map rowYear_resultRow)
  have "''2024'' \<noteq> ''undefined''"
    by simp
  then have "''2024'' \<notin> dom (calculateYearlyResults rs)"
    by (simp only: rs(3) singleton_iff not_False_eq_True)
  then have n: "calculateYearlyResults rs ''2024'' = None"
    by (simp only: domIff not_not)
  show ?thesis
    apply (intro conjI exI [of _ rs])
          apply (rule h(1))
         apply (rule h(2))
        apply (rule rs(1))
       apply (rule d)
      apply (rule y)
     apply (rule rs(3))
    apply (rule n)
    done
qed

text \<open>
  The earlier page writes the date of a row as the month name, a space and the year; for
  such a date the same parser returns the year.
\<close>

lemma splitJS_two_parts:
  "c \<notin> set xs \<Longrightarrow> c \<notin> set ys \<Longrightarrow> splitJS c (xs @ c # ys) = [xs, ys]"
  by (induction xs) (auto simp: splitJS_no_separator)

lemma monthNames_no_space: "m < 12 \<Longrightarrow> CHR '' '' \<notin> set (monthNames ! m)"
proof -
  have "\<forall>s\<in>set monthNames. CHR '' '' \<notin> set s"
    by (simp add: monthNames_def)
  moreover assume "m < 12"
  then have "monthNames ! m \<in> set monthNames"
    by (intro nth_mem) (simp add: monthNames_def)
  ultimately show ?thesis
    by blast
qed

lemma date_resultRow_Index:
  "date (resultRow_Index st d) = monthNames ! getMonth d @ CHR '' '' # showNat (getFullYear d)"
  by (simp only: resultRow_Index_def Let_def Result.select_convs append_Cons append_Nil)

lemma rowYear_resultRow_Index:
  assumes "getMonth d < 12"
  shows "rowYear (resultRow_Index st d) = Some (showNat (getFullYear d))"
proof -
  have "CHR '' '' \<notin> set (showNat (getFullYear d))"
    by (rule notin_showNat) simp
  then have "splitJS CHR '' '' (date (resultRow_Index st d))
      = [monthNames ! getMonth d, showNat (getFullYear d)]"
    unfolding date_resultRow_Index
    by (intro splitJS_two_parts monthNames_no_space assms)
  then show ?thesis
    by (simp add: rowYear_def index_def)
qed

end
